theory Spec2Isabelle
  imports Main "HOL-Library.Word" "HOL-Library.AList"
begin

unbundle bit_operations_syntax

section \<open>JSON values\<close>

text \<open>
  The request bodies and the parsed stored plans are JavaScript values as \<open>JSON.parse\<close>
  produces them: null, booleans, numbers, strings, arrays and objects. An object is the list
  of its own properties in enumeration order. The handlers never compute with a number, so
  the number type is a parameter \<open>'n\<close> of the model.
\<close>

datatype 'n json =
    JNull
  | JBool bool
  | JNum 'n
  | JStr string
  | JArr "'n json list"
  | JObj "(string \<times> 'n json) list"

section \<open>The plan schema and its validator\<close>

text \<open>
  \<open>schema.js\<close> uses four shapes of JSON Schema: \<open>{type: "number"}\<close>,
  \<open>{type: "string"}\<close>, \<open>{type: "array", items: S}\<close>, and
  \<open>{type: "object", properties: ..., required: ..., additionalProperties: false}\<close>.
\<close>

datatype schema =
    TNumber
  | TString
  | TArray schema
  | TObject "(string \<times> schema) list" "string list"

definition costSharesSchema :: schema where
  "costSharesSchema = TObject
     [(''deductible'', TNumber), (''_org'', TString), (''copay'', TNumber),
      (''objectId'', TString), (''objectType'', TString)]
     [''deductible'', ''_org'', ''copay'', ''objectId'', ''objectType'']"

definition linkedServiceSchema :: schema where
  "linkedServiceSchema = TObject
     [(''_org'', TString), (''objectId'', TString), (''objectType'', TString),
      (''name'', TString)]
     [''_org'', ''objectId'', ''objectType'', ''name'']"

definition linkedPlanServiceSchema :: schema where
  "linkedPlanServiceSchema = TObject
     [(''linkedService'', linkedServiceSchema),
      (''planserviceCostShares'', costSharesSchema),
      (''_org'', TString), (''objectId'', TString), (''objectType'', TString)]
     [''linkedService'', ''planserviceCostShares'', ''_org'', ''objectId'', ''objectType'']"

definition planSchema :: schema where
  "planSchema = TObject
     [(''planCostShares'', costSharesSchema),
      (''linkedPlanServices'', TArray linkedPlanServiceSchema),
      (''_org'', TString), (''objectId'', TString), (''objectType'', TString),
      (''planType'', TString), (''creationDate'', TString)]
     [''planCostShares'', ''linkedPlanServices'', ''_org'', ''objectId'', ''objectType'',
      ''planType'', ''creationDate'']"

text \<open>
  The validator that \<open>ajv.compile\<close> builds for such a schema: the type must match, every
  required name must be a property, every property named in \<open>properties\<close> must satisfy
  its sub-schema, and no other property may occur.
\<close>

fun validate :: "schema \<Rightarrow> 'n json \<Rightarrow> bool" where
  "validate TNumber j = (case j of JNum _ \<Rightarrow> True | _ \<Rightarrow> False)"
| "validate TString j = (case j of JStr _ \<Rightarrow> True | _ \<Rightarrow> False)"
| "validate (TArray items) j =
     (case j of JArr xs \<Rightarrow> list_all (validate items) xs | _ \<Rightarrow> False)"
| "validate (TObject properties required) j =
     (case j of
        JObj kvs \<Rightarrow>
          list_all (\<lambda>r. map_of kvs r \<noteq> None) required \<and>
          list_all (\<lambda>p. case map_of kvs (fst p) of
                            None \<Rightarrow> True
                          | Some v \<Rightarrow> validate (snd p) v) properties \<and>
          list_all (\<lambda>kv. map_of properties (fst kv) \<noteq> None) kvs
      | _ \<Rightarrow> False)"

definition validatePlan :: "'n json \<Rightarrow> bool" where
  "validatePlan data = validate planSchema data"

text \<open>The expression \<open>data.planCostShares.objectId\<close>; \<open>None\<close> where JavaScript would not
  yield a string.\<close>

definition plan_objectId :: "'n json \<Rightarrow> string option" where
  "plan_objectId data =
     (case data of
        JObj kvs \<Rightarrow>
          (case map_of kvs ''planCostShares'' of
             Some (JObj cs) \<Rightarrow>
               (case map_of cs ''objectId'' of Some (JStr s) \<Rightarrow> Some s | _ \<Rightarrow> None)
           | _ \<Rightarrow> None)
      | _ \<Rightarrow> None)"

section \<open>Object spread\<close>

text \<open>
  \<open>{ ...a, ...b }\<close> creates an empty object and defines on it, in order, every own
  enumerable property of \<open>a\<close> and then of \<open>b\<close>. Defining a name that is already
  there replaces its value in place; a new name goes to the end. An array contributes its
  elements under their decimal indices, a string its characters, any other primitive nothing.
  (An engine lists names that are array indices before the others; a plan has no such name,
  and the validator rejects every object that has one before it is serialised.)
\<close>

fun decimal :: "nat \<Rightarrow> string" where
  "decimal n =
     (if n < 10 then [''0123456789'' ! n]
      else decimal (n div 10) @ [''0123456789'' ! (n mod 10)])"

definition own_properties :: "'n json \<Rightarrow> (string \<times> 'n json) list" where
  "own_properties j =
     (case j of
        JObj kvs \<Rightarrow> kvs
      | JArr xs \<Rightarrow> zip (map decimal [0..<length xs]) xs
      | JStr cs \<Rightarrow> zip (map decimal [0..<length cs]) (map (\<lambda>c. JStr [c]) cs)
      | _ \<Rightarrow> [])"

definition define_all :: "(string \<times> 'v) list \<Rightarrow> (string \<times> 'v) list \<Rightarrow> (string \<times> 'v) list" where
  "define_all props target = fold (\<lambda>kv t. AList.update (fst kv) (snd kv) t) props target"

definition spread :: "'n json \<Rightarrow> 'n json \<Rightarrow> 'n json" where
  "spread a b = JObj (define_all (own_properties b) (define_all (own_properties a) []))"

text \<open>\<open>j[k]\<close>, the own property \<open>k\<close> of \<open>j\<close>; \<open>None\<close> is \<open>undefined\<close>.\<close>

definition property :: "'n json \<Rightarrow> string \<Rightarrow> 'n json option" where
  "property j k = map_of (own_properties j) k"

section \<open>The collaborators\<close>

text \<open>
  What the server calls but does not contain is a parameter of the model: the SHA-1 digest of
  \<open>crypto\<close> (160 bits), \<open>JSON.stringify\<close> and \<open>JSON.parse\<close> (\<open>None\<close> when it
  throws), the identity provider's \<open>verifyIdToken\<close> (\<open>Inl\<close> the message of the
  error it throws, \<open>Inr\<close> the payload of the ticket), and the error list that the
  validator leaves in \<open>validatePlan.errors\<close> for a document it rejects.
\<close>

record 'n platform =
  sha1 :: "string \<Rightarrow> 160 word"
  JSON_stringify :: "'n json \<Rightarrow> string"
  JSON_parse :: "string \<Rightarrow> 'n json option"
  verifyIdToken :: "string \<Rightarrow> string + 'n json"
  ajv_errors :: "'n json \<Rightarrow> 'n json"

text \<open>\<open>digest('hex')\<close>: the 40 lower-case hexadecimal digits of the digest, most
  significant first.\<close>

definition hex_digit :: "160 word \<Rightarrow> char" where
  "hex_digit d = ''0123456789abcdef'' ! unat (d AND 15)"

definition digest_hex :: "160 word \<Rightarrow> string" where
  "digest_hex w = map (\<lambda>i. hex_digit (drop_bit (4 * (39 - i)) w)) [0..<40]"

definition generateETag :: "'n platform \<Rightarrow> string \<Rightarrow> string" where
  "generateETag P data = digest_hex (sha1 P data)"

section \<open>The key-value store\<close>

text \<open>
  The Redis client: string values under string keys. A command on a client that has lost its
  connection rejects, which the handlers catch.
\<close>

record redis =
  entries :: "string \<rightharpoonup> string"
  connected :: bool

datatype js_error = RedisError

definition redis_get :: "redis \<Rightarrow> string \<Rightarrow> js_error + string option" where
  "redis_get s k = (if connected s then Inr (entries s k) else Inl RedisError)"

definition redis_set :: "redis \<Rightarrow> string \<Rightarrow> string \<Rightarrow> js_error + redis" where
  "redis_set s k v =
     (if connected s then Inr (s\<lparr>entries := (entries s)(k \<mapsto> v)\<rparr>) else Inl RedisError)"

definition redis_del :: "redis \<Rightarrow> string \<Rightarrow> js_error + nat \<times> redis" where
  "redis_del s k =
     (if connected s
      then Inr (if k \<in> dom (entries s) then 1 else 0, s\<lparr>entries := (entries s)(k := None)\<rparr>)
      else Inl RedisError)"

section \<open>Requests and responses\<close>

text \<open>
  Of a request the handlers and the framework read five headers (absent is \<open>None\<close>), the
  route parameter and the parsed body. A response is its status, its \<open>ETag\<close> header and
  the JSON value sent, if any.
\<close>

record 'n request =
  authorization :: "string option"
  if_match :: "string option"
  if_none_match :: "string option"
  if_modified_since :: "string option"
  cache_control :: "string option"
  objectId :: string
  body :: "'n json"

datatype 'n content = NoBody | Json "'n json"

record 'n response =
  status :: nat
  ETag :: "string option"
  content :: "'n content"

text \<open>A string or \<open>null\<close>/\<open>undefined\<close> in a condition: the empty string counts as
  absent.\<close>

definition truthy :: "string option \<Rightarrow> string option" where
  "truthy x = (case x of None \<Rightarrow> None | Some v \<Rightarrow> if v = [] then None else Some v)"

section \<open>How express sends an answer\<close>

text \<open>
  The entity tag that express computes of a body text when the handler has set none
  (application setting \<open>etag\<close>, by default weak): \<open>W/\<close>, a quote, the length of the text
  in hexadecimal, a dash, the first 27 characters of the base64 form of its SHA-1 digest,
  and a closing quote.
\<close>

fun hex_nat :: "nat \<Rightarrow> string" where
  "hex_nat n =
     (if n < 16 then [''0123456789abcdef'' ! n]
      else hex_nat (n div 16) @ [''0123456789abcdef'' ! (n mod 16)])"

definition base64_digit :: "160 word \<Rightarrow> char" where
  "base64_digit d =
     ''ABCDEFGHIJKLMNOPQRSTUVWXYZabcdefghijklmnopqrstuvwxyz0123456789+/'' ! unat (d AND 63)"

definition digest_base64 :: "160 word \<Rightarrow> string" where
  "digest_base64 w =
     map (\<lambda>i. base64_digit (drop_bit (154 - 6 * i) w)) [0..<26]
       @ [base64_digit (push_bit 2 (w AND 15))]"

definition entitytag :: "'n platform \<Rightarrow> string \<Rightarrow> string" where
  "entitytag P entity =
     (if entity = [] then [CHR 0x22] @ ''0-2jmj7l5rSw0yVb/vlWAYkK/YBwk'' @ [CHR 0x22]
      else [CHR 0x22] @ hex_nat (length entity) @ ''-'' @ digest_base64 (sha1 P entity)
             @ [CHR 0x22])"

definition wetag :: "'n platform \<Rightarrow> string \<Rightarrow> string" where
  "wetag P entity = ''W/'' @ entitytag P entity"

text \<open>
  The freshness test of the package \<open>fresh\<close> that \<open>req.fresh\<close> calls with the request
  headers and the \<open>ETag\<close> of the response. No handler sets \<open>Last-Modified\<close>, so a request
  with \<open>If-Modified-Since\<close> is never fresh. \<open>parseTokenList\<close> cuts at commas and drops the
  spaces around each piece.
\<close>

fun split_commas :: "string \<Rightarrow> string list" where
  "split_commas [] = [[]]"
| "split_commas (c # cs) =
     (if c = CHR '','' then [] # split_commas cs
      else case split_commas cs of
             [] \<Rightarrow> [[c]]
           | piece # pieces \<Rightarrow> (c # piece) # pieces)"

definition trim :: "(char \<Rightarrow> bool) \<Rightarrow> string \<Rightarrow> string" where
  "trim blank s = rev (dropWhile blank (rev (dropWhile blank s)))"

definition parseTokenList :: "string \<Rightarrow> string list" where
  "parseTokenList str = map (trim (\<lambda>c. c = CHR '' '')) (split_commas str)"

text \<open>The characters of a header value that count as white space in a regular
  expression.\<close>

definition is_space :: "char \<Rightarrow> bool" where
  "is_space c \<longleftrightarrow>
     c \<in> set [CHR 0x20, CHR 0x09, CHR 0x0A, CHR 0x0B, CHR 0x0C, CHR 0x0D, CHR 0xA0]"

definition no_cache :: "string \<Rightarrow> bool" where
  "no_cache cacheControl =
     list_ex (\<lambda>piece. trim is_space piece = ''no-cache'') (split_commas cacheControl)"

definition fresh :: "'n request \<Rightarrow> string option \<Rightarrow> bool" where
  "fresh req etag =
     (let modifiedSince = truthy (if_modified_since req);
          noneMatch = truthy (if_none_match req)
      in if modifiedSince = None \<and> noneMatch = None then False
         else if (case truthy (cache_control req) of
                    None \<Rightarrow> False
                  | Some cacheControl \<Rightarrow> no_cache cacheControl) then False
         else if (case noneMatch of
                    None \<Rightarrow> False
                  | Some presented \<Rightarrow>
                      presented \<noteq> ''*'' \<and>
                      (case truthy etag of
                         None \<Rightarrow> True
                       | Some e \<Rightarrow>
                           \<not> list_ex (\<lambda>m. m = e \<or> m = ''W/'' @ e \<or> ''W/'' @ m = e)
                                (parseTokenList presented))) then False
         else if modifiedSince \<noteq> None then False
         else True)"

text \<open>
  \<open>res.status(code).json(obj)\<close>, after the handler has or has not set the header
  \<open>ETag\<close>: the text of \<open>obj\<close> is tagged unless the handler set a tag; on a GET (\<open>get\<close>), a
  status of 2xx or 304 becomes 304 when the request is fresh against the tag; a 204 or 304
  goes out without its body. \<open>res.status(code).end()\<close> sends the status alone.
\<close>

definition res_json ::
  "'n platform \<Rightarrow> bool \<Rightarrow> 'n request \<Rightarrow> string option \<Rightarrow> nat \<Rightarrow> 'n json \<Rightarrow> 'n response" where
  "res_json P get req header code obj =
     (let chunk = JSON_stringify P obj;
          etag = (case truthy header of None \<Rightarrow> wetag P chunk | Some set_tag \<Rightarrow> set_tag);
          code' = (if get \<and> (200 \<le> code \<and> code < 300 \<or> code = 304) \<and> fresh req (Some etag)
                   then 304 else code)
      in \<lparr>status = code', ETag = Some etag,
          content = (if code' = 204 \<or> code' = 304 then NoBody else Json obj)\<rparr>)"

definition res_end :: "nat \<Rightarrow> 'n response" where
  "res_end code = \<lparr>status = code, ETag = None, content = NoBody\<rparr>"

definition json_message ::
  "'n platform \<Rightarrow> bool \<Rightarrow> 'n request \<Rightarrow> nat \<Rightarrow> string \<Rightarrow> string \<Rightarrow> 'n response" where
  "json_message P get req code field message =
     res_json P get req None code (JObj [(field, JStr message)])"

section \<open>The middleware \<open>verifyToken\<close>\<close>

text \<open>\<open>Some r\<close>: the middleware answered \<open>r\<close> itself; \<open>None\<close>: it called
  \<open>next()\<close>. The header starts with \<open>Bearer \<close>, so the second piece of
  \<open>split(' ')\<close> runs from the eighth character to the next space. The flag \<open>get\<close> tells
  whether the route is the GET route.\<close>

definition verifyToken :: "'n platform \<Rightarrow> bool \<Rightarrow> 'n request \<Rightarrow> 'n response option" where
  "verifyToken P get req =
     (case truthy (authorization req) of
        None \<Rightarrow>
          Some (json_message P get req 401 ''error''
                  ''Unauthorized: Missing or invalid Authorization header'')
      | Some authHeader \<Rightarrow>
          if take 7 authHeader \<noteq> ''Bearer '' then
            Some (json_message P get req 401 ''error''
                    ''Unauthorized: Missing or invalid Authorization header'')
          else
            (let token = takeWhile (\<lambda>c. c \<noteq> CHR '' '') (drop 7 authHeader) in
             case verifyIdToken P token of
               Inl message \<Rightarrow>
                 Some (json_message P get req 403 ''error'' (''Forbidden: '' @ message))
             | Inr payload \<Rightarrow> None))"

section \<open>The handlers\<close>

text \<open>Each handler maps the request and the store to the response and the store after it.
  In \<open>post_handler\<close> the key is read outside \<open>try\<close>: were it not a string, the promise
  would reject and no response be sent (\<open>None\<close>).\<close>

definition post_handler ::
  "'n platform \<Rightarrow> 'n request \<Rightarrow> redis \<Rightarrow> 'n response option \<times> redis" where
  "post_handler P req s =
     (let data = body req in
      if \<not> validatePlan data then
        (Some (res_json P False req None 400 (JObj [(''errors'', ajv_errors P data)])), s)
      else
        case plan_objectId data of
          None \<Rightarrow> (None, s)
        | Some oid \<Rightarrow>
            (case redis_get s oid of
               Inl err \<Rightarrow>
                 (Some (json_message P False req 500 ''error''
                          ''Internal Server Error: Could not store plan''), s)
             | Inr existingPlan \<Rightarrow>
                 (case truthy existingPlan of
                    Some plan \<Rightarrow>
                      (case JSON_parse P plan of
                         None \<Rightarrow>
                           (Some (json_message P False req 500 ''error''
                                    ''Internal Server Error: Could not store plan''), s)
                       | Some parsed \<Rightarrow>
                           (Some (res_json P False req None 409 (JObj
                              [(''message'', JStr ''Conflict: Plan already exists''),
                               (''data'', parsed)])), s))
                  | None \<Rightarrow>
                      (case redis_set s oid (JSON_stringify P data) of
                         Inl err \<Rightarrow>
                           (Some (json_message P False req 500 ''error''
                                    ''Internal Server Error: Could not store plan''), s)
                       | Inr s' \<Rightarrow>
                           (Some (res_json P False req
                                    (Some (generateETag P (JSON_stringify P data))) 201
                                    (JObj [(''message'', JStr ''Plan created''),
                                           (''data'', data)])), s')))))"

definition put_handler ::
  "'n platform \<Rightarrow> 'n request \<Rightarrow> redis \<Rightarrow> 'n response \<times> redis" where
  "put_handler P req s =
     (let newData = body req in
      if \<not> validatePlan newData then
        (res_json P False req None 400 (JObj [(''errors'', ajv_errors P newData)]), s)
      else
        case redis_get s (objectId req) of
          Inl err \<Rightarrow>
            (json_message P False req 500 ''error''
               ''Internal Server Error: Could not replace plan'', s)
        | Inr existingPlan \<Rightarrow>
            (case truthy existingPlan of
               None \<Rightarrow>
                 (json_message P False req 404 ''message'' ''Not Found: Plan does not exist'', s)
             | Some plan \<Rightarrow>
                 (let currentETag = generateETag P plan in
                  if if_match req \<noteq> Some currentETag then
                    (json_message P False req 412 ''error''
                       ''Precondition Failed: ETag does not match'', s)
                  else
                    case redis_set s (objectId req) (JSON_stringify P newData) of
                      Inl err \<Rightarrow>
                        (json_message P False req 500 ''error''
                           ''Internal Server Error: Could not replace plan'', s)
                    | Inr s' \<Rightarrow>
                        (res_json P False req
                           (Some (generateETag P (JSON_stringify P newData))) 200
                           (JObj [(''message'', JStr ''Plan replaced''),
                                  (''data'', newData)]), s'))))"

text \<open>In \<open>get_handler\<close> the \<open>ETag\<close> header is set before \<open>JSON.parse\<close> runs, so the
  500 of a stored value that does not parse still carries it; the 304 of the handler's own
  comparison is sent before the header is set.\<close>

definition get_handler ::
  "'n platform \<Rightarrow> 'n request \<Rightarrow> redis \<Rightarrow> 'n response \<times> redis" where
  "get_handler P req s =
     (case redis_get s (objectId req) of
        Inl err \<Rightarrow>
          (json_message P True req 500 ''error''
             ''Internal Server Error: Could not retrieve plan'', s)
      | Inr stored \<Rightarrow>
          (case truthy stored of
             None \<Rightarrow> (json_message P True req 404 ''message'' ''Not Found: Plan not found'', s)
           | Some plan \<Rightarrow>
               (let etag = generateETag P plan in
                if if_none_match req = Some etag then (res_end 304, s)
                else
                  case JSON_parse P plan of
                    None \<Rightarrow>
                      (res_json P True req (Some etag) 500
                         (JObj [(''error'',
                            JStr ''Internal Server Error: Could not retrieve plan'')]), s)
                  | Some parsed \<Rightarrow> (res_json P True req (Some etag) 200 parsed, s))))"

definition patch_handler ::
  "'n platform \<Rightarrow> 'n request \<Rightarrow> redis \<Rightarrow> 'n response \<times> redis" where
  "patch_handler P req s =
     (let updates = body req in
      case redis_get s (objectId req) of
        Inl err \<Rightarrow>
          (json_message P False req 500 ''error''
             ''Internal Server Error: Could not update plan'', s)
      | Inr stored \<Rightarrow>
          (case truthy stored of
             None \<Rightarrow>
               (json_message P False req 404 ''message'' ''Not Found: Plan does not exist'', s)
           | Some plan \<Rightarrow>
               (let currentETag = generateETag P plan in
                if if_match req \<noteq> Some currentETag then
                  (json_message P False req 412 ''error''
                     ''Precondition Failed: ETag does not match'', s)
                else
                  case JSON_parse P plan of
                    None \<Rightarrow>
                      (json_message P False req 500 ''error''
                         ''Internal Server Error: Could not update plan'', s)
                  | Some planData \<Rightarrow>
                      (let updatedPlan = spread planData updates in
                       if \<not> validatePlan updatedPlan then
                         (res_json P False req None 400
                            (JObj [(''errors'', ajv_errors P updatedPlan)]), s)
                       else
                         case redis_set s (objectId req) (JSON_stringify P updatedPlan) of
                           Inl err \<Rightarrow>
                             (json_message P False req 500 ''error''
                                ''Internal Server Error: Could not update plan'', s)
                         | Inr s' \<Rightarrow>
                             (res_json P False req
                                (Some (generateETag P (JSON_stringify P updatedPlan))) 200
                                (JObj [(''message'', JStr ''Plan updated''),
                                       (''data'', updatedPlan)]), s')))))"

definition delete_handler ::
  "'n platform \<Rightarrow> 'n request \<Rightarrow> redis \<Rightarrow> 'n response \<times> redis" where
  "delete_handler P req s =
     (case redis_get s (objectId req) of
        Inl err \<Rightarrow>
          (json_message P False req 500 ''error''
             ''Internal Server Error: Could not delete plan'', s)
      | Inr stored \<Rightarrow>
          (case truthy stored of
             None \<Rightarrow> (json_message P False req 404 ''message'' ''Not Found: Plan not found'', s)
           | Some plan \<Rightarrow>
               (let etag = generateETag P plan in
                if (case truthy (if_none_match req) of
                      None \<Rightarrow> False
                    | Some presented \<Rightarrow> presented \<noteq> etag) then
                  (json_message P False req 412 ''error''
                     ''Precondition Failed: ETag does not match'', s)
                else
                  case redis_del s (objectId req) of
                    Inl err \<Rightarrow>
                      (json_message P False req 500 ''error''
                         ''Internal Server Error: Could not delete plan'', s)
                  | Inr (deleted, s') \<Rightarrow>
                      if deleted = 0 then
                        (json_message P False req 404 ''message''
                           ''Not Found: Plan not found'', s')
                      else (res_end 204, s'))))"

section \<open>The routes\<close>

text \<open>Every route runs \<open>verifyToken\<close> first and its handler only after \<open>next()\<close>.
  \<open>app_get\<close> is the route for the method GET.\<close>

definition app_post ::
  "'n platform \<Rightarrow> 'n request \<Rightarrow> redis \<Rightarrow> 'n response option \<times> redis" where
  "app_post P req s =
     (case verifyToken P False req of
        Some r \<Rightarrow> (Some r, s)
      | None \<Rightarrow> post_handler P req s)"

definition app_put :: "'n platform \<Rightarrow> 'n request \<Rightarrow> redis \<Rightarrow> 'n response \<times> redis" where
  "app_put P req s =
     (case verifyToken P False req of Some r \<Rightarrow> (r, s) | None \<Rightarrow> put_handler P req s)"

definition app_get :: "'n platform \<Rightarrow> 'n request \<Rightarrow> redis \<Rightarrow> 'n response \<times> redis" where
  "app_get P req s =
     (case verifyToken P True req of Some r \<Rightarrow> (r, s) | None \<Rightarrow> get_handler P req s)"

definition app_patch :: "'n platform \<Rightarrow> 'n request \<Rightarrow> redis \<Rightarrow> 'n response \<times> redis" where
  "app_patch P req s =
     (case verifyToken P False req of Some r \<Rightarrow> (r, s) | None \<Rightarrow> patch_handler P req s)"

definition app_delete :: "'n platform \<Rightarrow> 'n request \<Rightarrow> redis \<Rightarrow> 'n response \<times> redis" where
  "app_delete P req s =
     (case verifyToken P False req of Some r \<Rightarrow> (r, s) | None \<Rightarrow> delete_handler P req s)"

text \<open>\<open>verifyToken\<close> let the request through.\<close>

definition authenticated :: "'n platform \<Rightarrow> 'n request \<Rightarrow> bool" where
  "authenticated P req \<longleftrightarrow> verifyToken P False req = None"

text \<open>\<open>JSON.parse\<close> reads back what \<open>JSON.stringify\<close> wrote for \<open>d\<close>, which is never the
  empty string.\<close>

definition round_trips :: "'n platform \<Rightarrow> 'n json \<Rightarrow> bool" where
  "round_trips P d \<longleftrightarrow>
     JSON_parse P (JSON_stringify P d) = Some d \<and> JSON_stringify P d \<noteq> []"

text \<open>Whatever is in the store \<open>s'\<close> was in \<open>s\<close> already or is the text of a valid
  plan.\<close>

definition written_by :: "'n platform \<Rightarrow> redis \<Rightarrow> redis \<Rightarrow> bool" where
  "written_by P s s' \<longleftrightarrow>
     (\<forall>k v. entries s' k = Some v \<longrightarrow>
        entries s k = Some v \<or> (\<exists>d. validatePlan d \<and> v = JSON_stringify P d))"

section \<open>A platform for the examples\<close>

text \<open>
  The theorems below hold for every platform. Their examples run on this one: compact JSON
  text over integers and strings whose only escapes are the quote and the backslash, a
  160-bit polynomial checksum in place of SHA-1, an identity provider that knows one token,
  and a validator that reports one error.
\<close>

definition show_int :: "int \<Rightarrow> string" where
  "show_int i = (if i < 0 then CHR ''-'' # decimal (nat (- i)) else decimal (nat i))"

fun quote_body :: "string \<Rightarrow> string" where
  "quote_body [] = []"
| "quote_body (c # cs) =
     (if c = CHR 0x22 \<or> c = CHR 0x5C then CHR 0x5C # c # quote_body cs
      else c # quote_body cs)"

definition quote :: "string \<Rightarrow> string" where
  "quote s = CHR 0x22 # quote_body s @ [CHR 0x22]"

fun commas :: "string list \<Rightarrow> string" where
  "commas [] = []"
| "commas [x] = x"
| "commas (x # xs) = x @ CHR '','' # commas xs"

fun stringify :: "int json \<Rightarrow> string" where
  "stringify JNull = ''null''"
| "stringify (JBool b) = (if b then ''true'' else ''false'')"
| "stringify (JNum n) = show_int n"
| "stringify (JStr s) = quote s"
| "stringify (JArr xs) = CHR ''['' # commas (map stringify xs) @ '']''"
| "stringify (JObj kvs) =
     CHR ''{'' # commas (map (\<lambda>kv. quote (fst kv) @ CHR '':'' # stringify (snd kv)) kvs)
       @ ''}''"

fun read_string :: "string \<Rightarrow> (string \<times> string) option" where
  "read_string [] = None"
| "read_string (c # cs) =
     (if c = CHR 0x22 then Some ([], cs)
      else if c = CHR 0x5C then
        (case cs of
           [] \<Rightarrow> None
         | e # rest \<Rightarrow>
             if e = CHR 0x22 \<or> e = CHR 0x5C then
               map_option (\<lambda>r. (e # fst r, snd r)) (read_string rest)
             else None)
      else map_option (\<lambda>r. (c # fst r, snd r)) (read_string cs))"

definition is_digit :: "char \<Rightarrow> bool" where
  "is_digit c \<longleftrightarrow> c \<in> set ''0123456789''"

definition read_nat :: "string \<Rightarrow> nat" where
  "read_nat ds = fold (\<lambda>c n. 10 * n + (of_char c - 48)) ds 0"

definition read_number :: "string \<Rightarrow> (int \<times> string) option" where
  "read_number s =
     (let neg = (case s of c # _ \<Rightarrow> c = CHR ''-'' | [] \<Rightarrow> False);
          s' = (if neg then tl s else s);
          ds = takeWhile is_digit s'
      in if ds = [] then None
         else Some ((if neg then - int (read_nat ds) else int (read_nat ds)),
                    dropWhile is_digit s'))"

text \<open>The first argument bounds the nesting depth; \<open>parse\<close> passes the text itself, which
  is longer than any nesting in it.\<close>

fun read_value :: "string \<Rightarrow> string \<Rightarrow> (int json \<times> string) option"
  and read_elements :: "string \<Rightarrow> string \<Rightarrow> (int json list \<times> string) option"
  and read_members :: "string \<Rightarrow> string \<Rightarrow> ((string \<times> int json) list \<times> string) option"
where
  "read_value [] s = None"
| "read_value (f # fuel) s =
     (case s of
        [] \<Rightarrow> None
      | c # cs \<Rightarrow>
          if c = CHR 0x22 then map_option (\<lambda>r. (JStr (fst r), snd r)) (read_string cs)
          else if c = CHR ''['' then
            (case cs of
               CHR '']'' # rest \<Rightarrow> Some (JArr [], rest)
             | _ \<Rightarrow> map_option (\<lambda>r. (JArr (fst r), snd r)) (read_elements fuel cs))
          else if c = CHR ''{'' then
            (case cs of
               CHR ''}'' # rest \<Rightarrow> Some (JObj [], rest)
             | _ \<Rightarrow> map_option (\<lambda>r. (JObj (fst r), snd r)) (read_members fuel cs))
          else if take 4 s = ''null'' then Some (JNull, drop 4 s)
          else if take 4 s = ''true'' then Some (JBool True, drop 4 s)
          else if take 5 s = ''false'' then Some (JBool False, drop 5 s)
          else map_option (\<lambda>r. (JNum (fst r), snd r)) (read_number s))"
| "read_elements [] s = None"
| "read_elements (f # fuel) s =
     (case read_value fuel s of
        None \<Rightarrow> None
      | Some (v, rest) \<Rightarrow>
          (case rest of
             CHR '','' # others \<Rightarrow>
               map_option (\<lambda>r. (v # fst r, snd r)) (read_elements fuel others)
           | CHR '']'' # after \<Rightarrow> Some ([v], after)
           | _ \<Rightarrow> None))"
| "read_members [] s = None"
| "read_members (f # fuel) s =
     (case s of
        CHR 0x22 # cs \<Rightarrow>
          (case read_string cs of
             Some (k, CHR '':'' # vs) \<Rightarrow>
               (case read_value fuel vs of
                  None \<Rightarrow> None
                | Some (v, rest) \<Rightarrow>
                    (case rest of
                       CHR '','' # others \<Rightarrow>
                         map_option (\<lambda>r. ((k, v) # fst r, snd r)) (read_members fuel others)
                     | CHR ''}'' # after \<Rightarrow> Some ([(k, v)], after)
                     | _ \<Rightarrow> None))
           | _ \<Rightarrow> None)
      | _ \<Rightarrow> None)"

definition parse :: "string \<Rightarrow> int json option" where
  "parse s = (case read_value s s of Some (v, []) \<Rightarrow> Some v | _ \<Rightarrow> None)"

definition checksum :: "string \<Rightarrow> 160 word" where
  "checksum s = fold (\<lambda>c h. 31 * h + of_nat (of_char c)) s 7"

definition example_verify :: "string \<Rightarrow> string + int json" where
  "example_verify token =
     (if token = ''id-token-of-alice'' then Inr (JObj [(''sub'', JStr ''alice'')])
      else Inl ''Invalid token signature'')"

definition example_errors :: "int json \<Rightarrow> int json" where
  "example_errors data = JArr [JObj [(''message'', JStr ''must match the plan schema'')]]"

definition example_platform :: "int platform" where
  "example_platform =
     \<lparr>sha1 = checksum, JSON_stringify = stringify, JSON_parse = parse,
      verifyIdToken = example_verify, ajv_errors = example_errors\<rparr>"

text \<open>A plan with no linked services, keyed \<open>k1\<close>; \<open>org_plan org\<close> is the same plan of the
  organisation \<open>org\<close>.\<close>

definition org_plan :: "string \<Rightarrow> int json" where
  "org_plan org = JObj
     [(''planCostShares'', JObj
         [(''deductible'', JNum 2000), (''_org'', JStr ''example.com''), (''copay'', JNum 23),
          (''objectId'', JStr ''k1''), (''objectType'', JStr ''membercostshare'')]),
      (''linkedPlanServices'', JArr []),
      (''_org'', JStr org), (''objectId'', JStr ''12xvxc345ssdsds-508''),
      (''objectType'', JStr ''plan''), (''planType'', JStr ''inNetwork''),
      (''creationDate'', JStr ''12-12-2017'')]"

definition plan1 :: "int json" where
  "plan1 = org_plan ''example.com''"

definition empty_store :: redis where
  "empty_store = \<lparr>entries = Map.empty, connected = True\<rparr>"

definition store1 :: redis where
  "store1 = \<lparr>entries = [''k1'' \<mapsto> stringify plan1], connected = True\<rparr>"

text \<open>A request of Alice for the key \<open>k\<close> with the two conditional headers and a body.\<close>

definition alice ::
  "string \<Rightarrow> string option \<Rightarrow> string option \<Rightarrow> int json \<Rightarrow> int request" where
  "alice k im inm b =
     \<lparr>authorization = Some ''Bearer id-token-of-alice'', if_match = im, if_none_match = inm,
      if_modified_since = None, cache_control = None, objectId = k, body = b\<rparr>"

definition tag1 :: string where
  "tag1 = generateETag example_platform (stringify plan1)"

section \<open>Facts about the validator, the tag and the spread\<close>

text \<open>
  A valid plan has a string under \<open>planCostShares.objectId\<close>, so \<open>post_handler\<close> always
  finds its key.
\<close>

lemma validatePlan_objectId:
  assumes "validatePlan data"
  shows "\<exists>oid. plan_objectId data = Some oid"
proof -
  from assms obtain kvs where d: "data = JObj kvs"
    by (cases data) (auto simp: validatePlan_def planSchema_def)
  from assms d obtain c where c: "map_of kvs ''planCostShares'' = Some c" "validate costSharesSchema c"
    by (auto simp: validatePlan_def planSchema_def split: option.splits)
  from c(2) obtain cs where cs: "c = JObj cs"
    by (cases c) (auto simp: costSharesSchema_def)
  from c(2) cs obtain i where i: "map_of cs ''objectId'' = Some i" "validate TString i"
    by (auto simp: costSharesSchema_def split: option.splits)
  from i(2) obtain x where "i = JStr x" by (cases i) auto
  with d c cs i show ?thesis by (simp add: plan_objectId_def)
qed

text \<open>
  The tag has 40 characters, and \<open>digest('hex')\<close> loses nothing: two tags are equal
  exactly when the digests are. It starts with a hexadecimal digit, so it is never the weak
  tag that express computes, which starts with \<open>W\<close>. A digest has 160 bits, so among
  infinitely many texts two have the same one.
\<close>

lemma length_digest_hex: "length (digest_hex w) = 40"
  by (simp add: digest_hex_def)

lemma length_generateETag: "length (generateETag P data) = 40"
  by (simp add: generateETag_def length_digest_hex)

lemma hex_digit_eqD:
  assumes "hex_digit a = hex_digit b"
  shows "a AND 15 = b AND 15"
proof -
  have le: "unat (x AND 15) < 16" for x :: "160 word"
  proof -
    have "x AND 15 \<le> 15" by (rule word_and_le1)
    then have "unat (x AND 15) \<le> unat (15 :: 160 word)" by (simp add: word_le_nat_alt)
    then show ?thesis by simp
  qed
  have d: "distinct ''0123456789abcdef''" by simp
  have "unat (a AND 15) = unat (b AND 15)"
    using assms le[of a] le[of b] nth_eq_iff_index_eq[OF d, of "unat (a AND 15)" "unat (b AND 15)"]
    by (simp add: hex_digit_def)
  then show ?thesis by (simp add: word_unat_eq_iff)
qed

lemma bit_15: "bit (15 :: 160 word) k \<longleftrightarrow> k < 4"
proof -
  have m: "(mask 4 :: 160 word) = 15" by (simp add: mask_eq_exp_minus_1)
  have "bit (mask 4 :: 160 word) k \<longleftrightarrow> k < 4" by (auto simp add: bit_mask_iff)
  then show ?thesis unfolding m .
qed

lemma digest_hex_inj:
  assumes "digest_hex v = digest_hex w"
  shows "v = w"
proof (rule bit_word_eqI)
  fix n assume n: "n < LENGTH(160)"
  let ?j = "n div 4"
  have j: "39 - ?j < 40" "39 - (39 - ?j) = ?j" using n by auto
  from assms have "\<forall>i\<in>set [0..<40]. hex_digit (drop_bit (4 * (39 - i)) v) = hex_digit (drop_bit (4 * (39 - i)) w)"
    unfolding digest_hex_def by (simp only: map_eq_conv)
  then have "hex_digit (drop_bit (4 * (39 - (39 - ?j))) v) = hex_digit (drop_bit (4 * (39 - (39 - ?j))) w)"
    using j(1) by (metis atLeastLessThan_iff set_upt zero_le)
  then have "hex_digit (drop_bit (4 * ?j) v) = hex_digit (drop_bit (4 * ?j) w)"
    by (simp only: j(2))
  then have e: "drop_bit (4 * ?j) v AND 15 = drop_bit (4 * ?j) w AND 15"
    by (rule hex_digit_eqD)
  have b: "bit (15 :: 160 word) (n mod 4)" unfolding bit_15 by simp
  have l: "n mod 4 < 160" by (rule less_trans[of _ 4]) simp_all
  have "bit (drop_bit (4 * ?j) x AND 15) (n mod 4) = bit x n" for x :: "160 word"
    using b l by (simp add: bit_and_iff bit_drop_bit_eq)
  with e show "bit v n = bit w n" by metis
qed

lemma generateETag_eq_iff: "generateETag P a = generateETag P b \<longleftrightarrow> sha1 P a = sha1 P b"
  by (auto simp: generateETag_def dest: digest_hex_inj)

lemma generateETag_nonempty: "generateETag P data \<noteq> []"
  using length_generateETag[of P data] by auto

lemma truthy_generateETag: "truthy (Some (generateETag P data)) = Some (generateETag P data)"
  by (simp add: truthy_def generateETag_nonempty)

lemma hex_digit_mem: "hex_digit d \<in> set ''0123456789abcdef''"
proof -
  have "d AND 15 \<le> 15" by (rule word_and_le1)
  then have "unat (d AND 15) \<le> unat (15 :: 160 word)" by (simp add: word_le_nat_alt)
  then have "unat (d AND 15) < length ''0123456789abcdef''" by simp
  then show ?thesis unfolding hex_digit_def by (rule nth_mem)
qed

lemma hd_generateETag: "hd (generateETag P data) \<in> set ''0123456789abcdef''"
proof -
  have "generateETag P data ! 0 = hex_digit (drop_bit 156 (sha1 P data))"
    by (simp add: generateETag_def digest_hex_def upt_conv_Cons)
  moreover have "generateETag P data ! 0 = hd (generateETag P data)"
    using generateETag_nonempty[of P data] by (simp add: hd_conv_nth)
  ultimately show ?thesis using hex_digit_mem by metis
qed

lemma wetag_neq_generateETag: "wetag P entity \<noteq> generateETag P data"
proof
  assume "wetag P entity = generateETag P data"
  then have "hd (wetag P entity) = hd (generateETag P data)" by simp
  then have "CHR ''W'' \<in> set ''0123456789abcdef''"
    using hd_generateETag[of P data] by (simp add: wetag_def)
  then show False by simp
qed

lemma digest_collision:
  fixes f :: "nat \<Rightarrow> 160 word"
  shows "\<exists>m n. m \<noteq> n \<and> f m = f n"
proof (rule ccontr)
  assume "\<not> (\<exists>m n. m \<noteq> n \<and> f m = f n)"
  then have "inj f" by (auto simp: inj_on_def)
  moreover have "finite (range f)" by (rule finite_subset[OF subset_UNIV finite])
  ultimately have "finite (UNIV :: nat set)" by (rule finite_imageD[rotated])
  then show False by simp
qed

text \<open>
  Defining properties one after the other gives the last value defined under each name.
\<close>

lemma own_properties_JObj: "own_properties (JObj kvs) = kvs"
  by (simp add: own_properties_def)

lemma map_of_define_all:
  "map_of (define_all props target) = map_of target ++ map_of (rev props)"
  unfolding define_all_def
proof (induction props arbitrary: target)
  case Nil
  then show ?case by simp
next
  case (Cons kv props)
  show ?case
    by (cases kv)
      (auto simp: Cons.IH update_conv' map_add_def fun_eq_iff split: option.splits)
qed

lemma map_of_rev_distinct:
  "distinct (map fst kvs) \<Longrightarrow> map_of (rev kvs) = map_of kvs"
proof (induction kvs)
  case Nil
  then show ?case by simp
next
  case (Cons kv kvs)
  then have "map_of kvs (fst kv) = None"
    by (simp add: map_of_eq_None_iff)
  with Cons show ?case
    by (cases kv) (auto simp: map_add_def fun_eq_iff split: option.splits)
qed

section \<open>Facts about the example platform\<close>

lemma validatePlan_org_plan: "validatePlan (org_plan org)"
  by (simp add: validatePlan_def planSchema_def costSharesSchema_def org_plan_def)

lemma validatePlan_plan1: "validatePlan plan1"
  by (simp add: plan1_def validatePlan_org_plan)

lemma plan_objectId_org_plan: "plan_objectId (org_plan org) = Some ''k1''"
  by (simp add: plan_objectId_def org_plan_def)

lemma plan_objectId_plan1: "plan_objectId plan1 = Some ''k1''"
  unfolding plan1_def by (rule plan_objectId_org_plan)

lemma stringify_plan1:
  "stringify plan1 = ''{\"planCostShares\":{\"deductible\":2000,\"_org\":\"example.com\",\"copay\":23,\"objectId\":\"k1\",\"objectType\":\"membercostshare\"},\"linkedPlanServices\":[],\"_org\":\"example.com\",\"objectId\":\"12xvxc345ssdsds-508\",\"objectType\":\"plan\",\"planType\":\"inNetwork\",\"creationDate\":\"12-12-2017\"}''"
  by (simp add: plan1_def org_plan_def quote_def show_int_def)

lemma stringify_plan1_nonempty: "stringify plan1 \<noteq> []"
  by (simp add: stringify_plan1)

lemma parse_plan1: "parse (stringify plan1) = Some plan1"
  unfolding stringify_plan1
  by (simp add: parse_def plan1_def org_plan_def read_number_def is_digit_def read_nat_def)

lemma example_codec:
  "JSON_parse example_platform = parse" "JSON_stringify example_platform = stringify"
  by (simp_all add: example_platform_def)

lemma round_trips_plan1: "round_trips example_platform plan1"
  by (simp add: round_trips_def example_platform_def parse_plan1 stringify_plan1_nonempty)

lemma stringify_org_plan_nonempty: "stringify (org_plan org) \<noteq> []"
  by (simp add: org_plan_def)

lemma quote_body_replicate: "quote_body (replicate n CHR ''a'') = replicate n CHR ''a''"
  by (induction n) simp_all

lemma stringify_org_plan_length:
  "length (stringify (org_plan a)) = length (stringify (org_plan b))
     \<Longrightarrow> length (quote_body a) = length (quote_body b)"
  by (simp add: org_plan_def quote_def show_int_def)

lemma stringify_org_plan_replicate:
  assumes "stringify (org_plan (replicate m CHR ''a'')) = stringify (org_plan (replicate n CHR ''a''))"
  shows "m = n"
proof -
  from assms have "length (quote_body (replicate m CHR ''a'')) = length (quote_body (replicate n CHR ''a''))"
    by (intro stringify_org_plan_length) simp
  then show ?thesis by (simp add: quote_body_replicate)
qed

lemma alice_fields:
  "objectId (alice k im inm b) = k" "if_match (alice k im inm b) = im"
  "if_none_match (alice k im inm b) = inm" "body (alice k im inm b) = b"
  "if_modified_since (alice k im inm b) = None" "cache_control (alice k im inm b) = None"
  by (simp_all add: alice_def)

lemma authenticated_alice: "authenticated example_platform (alice k im inm b)"
  by (simp add: authenticated_def verifyToken_def truthy_def alice_def example_platform_def
      example_verify_def)

lemma authenticated_alice_any_digest:
  "authenticated (example_platform\<lparr>sha1 := h\<rparr>) (alice k im inm b)"
  by (simp add: authenticated_def verifyToken_def truthy_def alice_def example_platform_def
      example_verify_def)

lemma entries_store1: "entries store1 ''k1'' = Some (stringify plan1)"
  by (simp add: store1_def)

lemma connected_store1: "connected store1"
  by (simp add: store1_def)

lemma truthy_store1: "truthy (entries store1 ''k1'') = Some (stringify plan1)"
  by (simp add: truthy_def entries_store1 stringify_plan1_nonempty)

lemma spread_planType_invalid:
  "\<not> validatePlan (spread plan1 (JObj [(''planType'', JNum 7)]))"
  by (simp add: spread_def own_properties_def define_all_def plan1_def org_plan_def
      validatePlan_def planSchema_def costSharesSchema_def)

section \<open>What each route answers\<close>

text \<open>
  The answers that are not subject to the freshness test: those of the routes other than
  GET, and those with a status that is neither 2xx nor 304.
\<close>

lemma res_json_plain:
  "res_json P False req header code obj =
     \<lparr>status = code,
      ETag = Some (case truthy header of
                     None \<Rightarrow> wetag P (JSON_stringify P obj)
                   | Some set_tag \<Rightarrow> set_tag),
      content = (if code = 204 \<or> code = 304 then NoBody else Json obj)\<rparr>"
  by (simp add: res_json_def Let_def)

lemma res_json_error:
  assumes "\<not> (200 \<le> code \<and> code < 300 \<or> code = 304)"
  shows "res_json P get req header code obj = res_json P False req header code obj"
  using assms by (auto simp: res_json_def Let_def)

lemma status_res_json_plain: "status (res_json P False req header code obj) = code"
  by (simp add: res_json_plain)

lemma status_json_message_plain: "status (json_message P False req code field message) = code"
  by (simp add: json_message_def res_json_plain)

lemma status_json_message_error:
  "\<not> (200 \<le> code \<and> code < 300 \<or> code = 304)
     \<Longrightarrow> status (json_message P get req code field message) = code"
  by (simp add: json_message_def res_json_error res_json_plain)

lemma tagged_res_json_plain:
  "res_json P False req (Some (generateETag P data)) code obj =
     \<lparr>status = code, ETag = Some (generateETag P data),
      content = (if code = 204 \<or> code = 304 then NoBody else Json obj)\<rparr>"
  by (simp add: res_json_plain truthy_generateETag)

lemma status_res_end: "status (res_end code) = code"
  by (simp add: res_end_def)

lemmas express_simps =
  status_res_json_plain status_json_message_plain status_res_end tagged_res_json_plain

text \<open>
  What \<open>verifyToken\<close> answers by itself is a 401 or a 403, and whether it answers does not
  depend on the route. For a request that it lets through and a store that is connected,
  each route is one decision table.
\<close>

lemma rejected_status:
  "verifyToken P get req = Some r \<Longrightarrow> status r = 401 \<or> status r = 403"
  by (auto simp: verifyToken_def status_json_message_error Let_def
      split: option.splits if_splits sum.splits)

lemma verifyToken_any_route: "verifyToken P get req = None \<longleftrightarrow> authenticated P req"
  by (auto simp: authenticated_def verifyToken_def Let_def
      split: option.splits if_splits sum.splits)

lemma app_post_eq:
  assumes "authenticated P req" "connected s" "validatePlan (body req)"
    "plan_objectId (body req) = Some k"
  shows "app_post P req s =
     (let created =
        (Some \<lparr>status = 201, ETag = Some (generateETag P (JSON_stringify P (body req))),
               content = Json (JObj [(''message'', JStr ''Plan created''), (''data'', body req)])\<rparr>,
         s\<lparr>entries := (entries s)(k \<mapsto> JSON_stringify P (body req))\<rparr>)
      in case entries s k of
        None \<Rightarrow> created
      | Some plan \<Rightarrow>
          if plan = [] then created
          else
            case JSON_parse P plan of
              None \<Rightarrow> (Some (json_message P False req 500 ''error''
                               ''Internal Server Error: Could not store plan''), s)
            | Some parsed \<Rightarrow>
                (Some (res_json P False req None 409 (JObj
                   [(''message'', JStr ''Conflict: Plan already exists''), (''data'', parsed)])), s))"
  using assms
  by (simp add: app_post_def authenticated_def post_handler_def redis_get_def redis_set_def
      truthy_def Let_def tagged_res_json_plain split: option.splits)

lemma app_put_eq:
  assumes "authenticated P req" "connected s"
  shows "app_put P req s =
     (if \<not> validatePlan (body req) then
        (res_json P False req None 400 (JObj [(''errors'', ajv_errors P (body req))]), s)
      else case entries s (objectId req) of
        None \<Rightarrow> (json_message P False req 404 ''message'' ''Not Found: Plan does not exist'', s)
      | Some plan \<Rightarrow>
          if plan = [] then
            (json_message P False req 404 ''message'' ''Not Found: Plan does not exist'', s)
          else if if_match req \<noteq> Some (generateETag P plan) then
            (json_message P False req 412 ''error'' ''Precondition Failed: ETag does not match'', s)
          else
            (\<lparr>status = 200, ETag = Some (generateETag P (JSON_stringify P (body req))),
              content = Json (JObj [(''message'', JStr ''Plan replaced''), (''data'', body req)])\<rparr>,
             s\<lparr>entries := (entries s)(objectId req \<mapsto> JSON_stringify P (body req))\<rparr>))"
  using assms
  by (simp add: app_put_def authenticated_def put_handler_def redis_get_def redis_set_def
      truthy_def Let_def tagged_res_json_plain split: option.splits)

lemma app_get_eq:
  assumes "authenticated P req" "connected s"
  shows "app_get P req s =
     (case entries s (objectId req) of
        None \<Rightarrow> (json_message P True req 404 ''message'' ''Not Found: Plan not found'', s)
      | Some plan \<Rightarrow>
          if plan = [] then
            (json_message P True req 404 ''message'' ''Not Found: Plan not found'', s)
          else if if_none_match req = Some (generateETag P plan) then (res_end 304, s)
          else
            case JSON_parse P plan of
              None \<Rightarrow>
                (res_json P True req (Some (generateETag P plan)) 500
                   (JObj [(''error'',
                      JStr ''Internal Server Error: Could not retrieve plan'')]), s)
            | Some parsed \<Rightarrow>
                (res_json P True req (Some (generateETag P plan)) 200 parsed, s))"
  using assms verifyToken_any_route[of P True req]
  by (simp add: app_get_def get_handler_def redis_get_def
      truthy_def Let_def split: option.splits)

lemma app_patch_eq:
  assumes "authenticated P req" "connected s"
  shows "app_patch P req s =
     (case entries s (objectId req) of
        None \<Rightarrow> (json_message P False req 404 ''message'' ''Not Found: Plan does not exist'', s)
      | Some plan \<Rightarrow>
          if plan = [] then
            (json_message P False req 404 ''message'' ''Not Found: Plan does not exist'', s)
          else if if_match req \<noteq> Some (generateETag P plan) then
            (json_message P False req 412 ''error'' ''Precondition Failed: ETag does not match'', s)
          else
            case JSON_parse P plan of
              None \<Rightarrow>
                (json_message P False req 500 ''error''
                   ''Internal Server Error: Could not update plan'', s)
            | Some planData \<Rightarrow>
                if \<not> validatePlan (spread planData (body req)) then
                  (res_json P False req None 400
                     (JObj [(''errors'', ajv_errors P (spread planData (body req)))]), s)
                else
                  (\<lparr>status = 200,
                    ETag = Some (generateETag P (JSON_stringify P (spread planData (body req)))),
                    content = Json (JObj [(''message'', JStr ''Plan updated''),
                                          (''data'', spread planData (body req))])\<rparr>,
                   s\<lparr>entries := (entries s)(objectId req \<mapsto>
                                   JSON_stringify P (spread planData (body req)))\<rparr>))"
  using assms
  by (simp add: app_patch_def authenticated_def patch_handler_def redis_get_def redis_set_def
      truthy_def Let_def tagged_res_json_plain split: option.splits)

lemma app_delete_eq:
  assumes "authenticated P req" "connected s"
  shows "app_delete P req s =
     (case entries s (objectId req) of
        None \<Rightarrow> (json_message P False req 404 ''message'' ''Not Found: Plan not found'', s)
      | Some plan \<Rightarrow>
          if plan = [] then
            (json_message P False req 404 ''message'' ''Not Found: Plan not found'', s)
          else if if_none_match req \<noteq> None \<and> if_none_match req \<noteq> Some []
                  \<and> if_none_match req \<noteq> Some (generateETag P plan) then
            (json_message P False req 412 ''error'' ''Precondition Failed: ETag does not match'', s)
          else (res_end 204, s\<lparr>entries := (entries s)(objectId req := None)\<rparr>))"
  using assms
  by (auto simp add: app_delete_def authenticated_def delete_handler_def redis_get_def
      redis_del_def truthy_def Let_def split: option.splits)

text \<open>
  \<open>app_post\<close> always answers. No route changes the store unless it answers 200, 201 or 204,
  and what a route writes is the text of a valid plan.
\<close>

lemma post_always_answers: "fst (app_post P req s) \<noteq> None"
proof (cases "validatePlan (body req)")
  case True
  then obtain oid where "plan_objectId (body req) = Some oid"
    using validatePlan_objectId by blast
  then show ?thesis
    by (simp add: app_post_def post_handler_def Let_def split: option.splits sum.splits)
next
  case False
  then show ?thesis
    by (simp add: app_post_def post_handler_def Let_def split: option.splits)
qed

lemma app_post_error_unchanged:
  "app_post P req s = (Some r, s') \<Longrightarrow> status r \<noteq> 201 \<Longrightarrow> s' = s"
  by (auto simp: app_post_def post_handler_def redis_get_def redis_set_def Let_def
      express_simps split: option.splits sum.splits if_splits)

lemma app_put_error_unchanged:
  "status (fst (app_put P req s)) \<noteq> 200 \<Longrightarrow> snd (app_put P req s) = s"
  by (auto simp: app_put_def put_handler_def redis_get_def redis_set_def Let_def
      express_simps split: option.splits sum.splits if_splits)

lemma app_get_unchanged: "snd (app_get P req s) = s"
  by (auto simp: app_get_def get_handler_def redis_get_def Let_def
      split: option.splits sum.splits if_splits)

lemma app_patch_error_unchanged:
  "status (fst (app_patch P req s)) \<noteq> 200 \<Longrightarrow> snd (app_patch P req s) = s"
  by (auto simp: app_patch_def patch_handler_def redis_get_def redis_set_def Let_def
      express_simps split: option.splits sum.splits if_splits)

lemma app_delete_error_unchanged:
  "status (fst (app_delete P req s)) \<noteq> 204 \<Longrightarrow> entries (snd (app_delete P req s)) = entries s"
  by (auto simp: app_delete_def delete_handler_def redis_get_def redis_del_def Let_def
      truthy_def express_simps split: option.splits sum.splits if_splits)

lemma app_post_writes: "written_by P s (snd (app_post P req s))"
  by (auto simp: written_by_def app_post_def post_handler_def redis_get_def redis_set_def
      Let_def split: option.splits sum.splits if_splits)

lemma app_put_writes: "written_by P s (snd (app_put P req s))"
  by (auto simp: written_by_def app_put_def put_handler_def redis_get_def redis_set_def Let_def
      split: option.splits sum.splits if_splits)

lemma app_patch_writes: "written_by P s (snd (app_patch P req s))"
  by (auto simp: written_by_def app_patch_def patch_handler_def redis_get_def redis_set_def
      Let_def split: option.splits sum.splits if_splits)

lemma app_delete_writes: "written_by P s (snd (app_delete P req s))"
  by (auto simp: written_by_def app_delete_def delete_handler_def redis_get_def redis_del_def
      Let_def split: option.splits sum.splits if_splits)

lemma app_delete_204:
  assumes "status (fst (app_delete P req s)) = 204"
  shows "authenticated P req \<and> connected s"
  using assms
  by (auto simp: app_delete_def authenticated_def delete_handler_def redis_get_def redis_del_def
      truthy_def Let_def express_simps dest: rejected_status
      split: option.splits if_splits)

lemma app_delete_unchanged_absent:
  "entries s (objectId req) = None \<Longrightarrow> snd (app_delete P req s) = s"
  by (auto simp: app_delete_def delete_handler_def redis_get_def truthy_def
      split: option.splits)

section \<open>Facts about the freshness test and the merge\<close>

text \<open>
  A request without \<open>If-None-Match\<close> is never fresh. Without \<open>If-Modified-Since\<close> and
  \<open>Cache-Control: no-cache\<close>, a request is fresh against a tag exactly when its
  \<open>If-None-Match\<close> is \<open>*\<close> or lists the tag, the tag after \<open>W/\<close>, or the tag without
  its \<open>W/\<close>; so it is fresh against the tag of a record when it presents the weak form of
  that tag or a list that ends with it.
\<close>

lemma fresh_without_if_none_match: "if_none_match req = None \<Longrightarrow> \<not> fresh req etag"
  by (simp add: fresh_def truthy_def Let_def split: option.splits)

lemma fresh_iff:
  assumes "truthy (if_modified_since req) = None" and "truthy (cache_control req) = None"
    and "e \<noteq> []"
  shows "fresh req (Some e) \<longleftrightarrow>
     (\<exists>presented. truthy (if_none_match req) = Some presented \<and>
        (presented = ''*'' \<or>
         list_ex (\<lambda>m. m = e \<or> m = ''W/'' @ e \<or> ''W/'' @ m = e) (parseTokenList presented)))"
  using assms by (auto simp: fresh_def truthy_def Let_def split: option.splits if_splits)

lemma generateETag_chars: "c \<in> set (generateETag P data) \<Longrightarrow> c \<in> set ''0123456789abcdef''"
  unfolding generateETag_def digest_hex_def using hex_digit_mem by auto

lemma generateETag_no_comma: "CHR '','' \<notin> set (generateETag P data)"
  using generateETag_chars[of "CHR '',''" P data] by auto

lemma generateETag_no_space: "CHR '' '' \<notin> set (generateETag P data)"
  using generateETag_chars[of "CHR '' ''" P data] by auto

lemma split_commas_nonempty: "split_commas s \<noteq> []"
  by (induction s) (auto split: list.splits)

lemma split_commas_no_comma: "CHR '','' \<notin> set s \<Longrightarrow> split_commas s = [s]"
  by (induction s) auto

lemma split_commas_append:
  "split_commas (a @ CHR '','' # b) = split_commas a @ split_commas b"
proof (induction a)
  case Nil
  then show ?case by simp
next
  case (Cons c a)
  obtain piece pieces where "split_commas a = piece # pieces"
    using split_commas_nonempty[of a] by (cases "split_commas a") auto
  with Cons show ?case by simp
qed

lemma trim_unchanged:
  assumes "\<forall>c \<in> set s. \<not> blank c"
  shows "trim blank s = s"
proof -
  have "dropWhile blank t = t" if "\<forall>c \<in> set t. \<not> blank c" for t
    using that by (cases t) auto
  from this[of s] this[of "rev s"] assms show ?thesis by (simp add: trim_def)
qed

lemma trim_leading: "blank c \<Longrightarrow> trim blank (c # s) = trim blank s"
  by (simp add: trim_def)

lemma trim_generateETag:
  "trim (\<lambda>c. c = CHR '' '') (generateETag P data) = generateETag P data"
  by (rule trim_unchanged) (use generateETag_no_space[of P data] in auto)

lemma parseTokenList_last:
  "parseTokenList (others @ CHR '','' # CHR '' '' # generateETag P data) =
     parseTokenList others @ [generateETag P data]"
proof -
  have "split_commas (CHR '' '' # generateETag P data) = [CHR '' '' # generateETag P data]"
    by (rule split_commas_no_comma) (simp add: generateETag_no_comma)
  then show ?thesis
    by (simp add: parseTokenList_def split_commas_append trim_leading trim_generateETag)
qed

lemma parseTokenList_weak:
  "parseTokenList (CHR ''W'' # CHR ''/'' # generateETag P data) =
     [CHR ''W'' # CHR ''/'' # generateETag P data]"
proof -
  let ?weak = "CHR ''W'' # CHR ''/'' # generateETag P data"
  have "split_commas ?weak = [?weak]"
    by (rule split_commas_no_comma) (simp add: generateETag_no_comma)
  moreover have "trim (\<lambda>c. c = CHR '' '') ?weak = ?weak"
    by (rule trim_unchanged) (use generateETag_no_space[of P data] in auto)
  ultimately show ?thesis by (simp add: parseTokenList_def)
qed

lemma fresh_weak_tag:
  assumes "truthy (if_modified_since req) = None" and "truthy (cache_control req) = None"
    and "if_none_match req = Some (''W/'' @ generateETag P data)"
  shows "fresh req (Some (generateETag P data))"
  using assms
  by (simp add: fresh_iff generateETag_nonempty truthy_def parseTokenList_weak)

lemma fresh_listed_tag:
  assumes "truthy (if_modified_since req) = None" and "truthy (cache_control req) = None"
    and "if_none_match req = Some (others @ '', '' @ generateETag P data)"
  shows "fresh req (Some (generateETag P data))"
  using assms
  by (simp add: fresh_iff generateETag_nonempty truthy_def parseTokenList_last)

lemma fresh_star: "fresh (alice k im (Some ''*'') b) (Some e)"
  by (simp add: fresh_def truthy_def alice_fields)

lemma tag1_neq_star: "tag1 \<noteq> ''*''"
proof -
  have "length tag1 \<noteq> length ''*''" by (simp add: tag1_def length_generateETag)
  then show ?thesis by metis
qed

text \<open>The merged object has under each name the value of the second operand, if it has
  one, and else that of the first.\<close>

lemma spread_property:
  assumes "distinct (map fst (own_properties p))"
    and "distinct (map fst (own_properties u))"
  shows "property (spread p u) k =
         (case property u k of Some v \<Rightarrow> Some v | None \<Rightarrow> property p k)"
  by (simp add: property_def spread_def own_properties_JObj map_of_define_all
      map_of_rev_distinct[OF assms(1)] map_of_rev_distinct[OF assms(2)] map_add_def
      split: option.splits)

lemma spread_update1:
  "spread plan1 (JObj [(''planCostShares'', JObj
      [(''deductible'', JNum 500), (''_org'', JStr ''example.com''), (''copay'', JNum 5),
       (''objectId'', JStr ''k1''), (''objectType'', JStr ''membercostshare'')]),
     (''planType'', JStr ''outOfNetwork'')]) =
   JObj
     [(''planCostShares'', JObj
         [(''deductible'', JNum 500), (''_org'', JStr ''example.com''), (''copay'', JNum 5),
          (''objectId'', JStr ''k1''), (''objectType'', JStr ''membercostshare'')]),
      (''linkedPlanServices'', JArr []),
      (''_org'', JStr ''example.com''), (''objectId'', JStr ''12xvxc345ssdsds-508''),
      (''objectType'', JStr ''plan''), (''planType'', JStr ''outOfNetwork''),
      (''creationDate'', JStr ''12-12-2017'')]"
  by (simp add: spread_def own_properties_def define_all_def plan1_def org_plan_def)

section \<open>The claims\<close>

text \<open>
  In the theorems below a record is a non-empty string stored under the key: the handlers
  test the stored value for truthiness, so a stored empty string counts as absent
  (\<open>truthy\<close>), and the server never writes one.
\<close>

text \<open>
  Claim C1, amended. For an authenticated PUT on a connected store: a body that fails
  validation is answered 400 before the store is read. For a valid body: with no record
  under the key the answer is 404; with a record whose tag is not the \<open>If-Match\<close> value
  the answer is 412; in all these cases the store is unchanged. Otherwise the record is
  overwritten with the serialised body and the answer is 200 with the tag of the new
  content, which differs from the \<open>If-Match\<close> value exactly when the digests of the new
  and the old content differ.
\<close>

theorem put_replace:
  assumes "authenticated P req" and "connected s"
  shows
    "if \<not> validatePlan (body req) then
       status (fst (app_put P req s)) = 400 \<and> snd (app_put P req s) = s
     else
       (case truthy (entries s (objectId req)) of
          None \<Rightarrow> status (fst (app_put P req s)) = 404 \<and> snd (app_put P req s) = s
        | Some plan \<Rightarrow>
            if if_match req \<noteq> Some (generateETag P plan) then
              status (fst (app_put P req s)) = 412 \<and> snd (app_put P req s) = s
            else
              status (fst (app_put P req s)) = 200 \<and>
              snd (app_put P req s) =
                s\<lparr>entries := (entries s)(objectId req \<mapsto> JSON_stringify P (body req))\<rparr> \<and>
              ETag (fst (app_put P req s)) =
                Some (generateETag P (JSON_stringify P (body req))) \<and>
              ((ETag (fst (app_put P req s)) = if_match req) =
               (sha1 P (JSON_stringify P (body req)) = sha1 P plan)))"
proof (cases "validatePlan (body req)")
  case False
  then show ?thesis by (simp add: app_put_eq[OF assms] express_simps)
next
  case valid: True
  show ?thesis
  proof (cases "truthy (entries s (objectId req))")
    case None
    then show ?thesis
      using valid
      by (auto simp: app_put_eq[OF assms] truthy_def express_simps
          split: option.splits if_splits)
  next
    case (Some plan)
    then have stored: "entries s (objectId req) = Some plan" "plan \<noteq> []"
      by (auto simp: truthy_def split: option.splits if_splits)
    show ?thesis
    proof (cases "if_match req = Some (generateETag P plan)")
      case True
      then show ?thesis
        using valid Some stored
        by (simp add: app_put_eq[OF assms] generateETag_eq_iff)
    next
      case False
      then show ?thesis
        using valid Some stored
        by (simp add: app_put_eq[OF assms] express_simps)
    qed
  qed
qed

text \<open>
  The stored plan replaced by the plan of another organisation.
\<close>

theorem put_replace_witness:
  "authenticated example_platform (alice ''k1'' (Some tag1) None (org_plan ''acme.org'')) \<and>
   connected store1 \<and>
   status (fst (app_put example_platform
     (alice ''k1'' (Some tag1) None (org_plan ''acme.org'')) store1)) = 200 \<and>
   snd (app_put example_platform
     (alice ''k1'' (Some tag1) None (org_plan ''acme.org'')) store1) =
     store1\<lparr>entries := (entries store1)(''k1'' \<mapsto> stringify (org_plan ''acme.org''))\<rparr> \<and>
   ETag (fst (app_put example_platform
     (alice ''k1'' (Some tag1) None (org_plan ''acme.org'')) store1)) =
     Some (generateETag example_platform (stringify (org_plan ''acme.org'')))"
proof -
  let ?req = "alice ''k1'' (Some tag1) None (org_plan ''acme.org'')"
  have v: "validatePlan (body ?req)" by (simp add: alice_fields validatePlan_org_plan)
  from put_replace[OF authenticated_alice connected_store1, of "''k1''" "Some tag1" None
      "org_plan ''acme.org''"]
  show ?thesis
    using v authenticated_alice connected_store1
    by (simp add: alice_fields truthy_store1 tag1_def[symmetric] example_codec)
qed

text \<open>
  Against the claim as it was stated: a PUT with the body \<open>null\<close> on a key without a
  record is answered 400, not 404; and whatever the 160-bit digest is, two of the plans
  \<open>org_plan (replicate n CHR ''a'')\<close> have different texts with the same digest, so that
  replacing the one by the other is answered 200 with the tag the client sent.
\<close>

theorem put_replace_counterexample:
  "(entries empty_store (objectId (alice ''k1'' (Some tag1) None JNull)) = None \<and>
    status (fst (app_put example_platform (alice ''k1'' (Some tag1) None JNull) empty_store))
      = 400) \<and>
   (\<forall>h. \<exists>m n.
      validatePlan (org_plan (replicate n CHR ''a'')) \<and>
      stringify (org_plan (replicate n CHR ''a'')) \<noteq> stringify (org_plan (replicate m CHR ''a'')) \<and>
      status (fst (app_put (example_platform\<lparr>sha1 := h\<rparr>)
        (alice ''k1''
           (Some (generateETag (example_platform\<lparr>sha1 := h\<rparr>)
              (stringify (org_plan (replicate m CHR ''a'')))))
           None (org_plan (replicate n CHR ''a'')))
        \<lparr>entries = [''k1'' \<mapsto> stringify (org_plan (replicate m CHR ''a''))],
         connected = True\<rparr>)) = 200 \<and>
      ETag (fst (app_put (example_platform\<lparr>sha1 := h\<rparr>)
        (alice ''k1''
           (Some (generateETag (example_platform\<lparr>sha1 := h\<rparr>)
              (stringify (org_plan (replicate m CHR ''a'')))))
           None (org_plan (replicate n CHR ''a'')))
        \<lparr>entries = [''k1'' \<mapsto> stringify (org_plan (replicate m CHR ''a''))],
         connected = True\<rparr>)) =
      Some (generateETag (example_platform\<lparr>sha1 := h\<rparr>)
              (stringify (org_plan (replicate m CHR ''a'')))))"
proof (intro conjI allI)
  show "entries empty_store (objectId (alice ''k1'' (Some tag1) None JNull)) = None"
    by (simp add: empty_store_def)
  have c: "connected empty_store" by (simp add: empty_store_def)
  have "\<not> validatePlan (JNull :: int json)" by (simp add: validatePlan_def planSchema_def)
  then show "status (fst (app_put example_platform (alice ''k1'' (Some tag1) None JNull)
      empty_store)) = 400"
    by (simp add: app_put_eq[OF authenticated_alice c] alice_fields express_simps)
next
  fix h :: "string \<Rightarrow> 160 word"
  let ?P = "example_platform\<lparr>sha1 := h\<rparr>"
  let ?text = "\<lambda>n. stringify (org_plan (replicate n CHR ''a''))"
  obtain m n where mn: "m \<noteq> n" "h (?text m) = h (?text n)"
    using digest_collision[of "\<lambda>n. h (?text n)"] by blast
  let ?s = "\<lparr>entries = [''k1'' \<mapsto> ?text m], connected = True\<rparr>"
  let ?req = "alice ''k1'' (Some (generateETag ?P (?text m))) None (org_plan (replicate n CHR ''a''))"
  have c: "connected ?s" by simp
  have ne: "?text n \<noteq> ?text m" using mn(1) stringify_org_plan_replicate by blast
  have tags: "generateETag ?P (?text n) = generateETag ?P (?text m)"
    using mn(2) by (simp add: generateETag_def)
  have codec: "JSON_stringify ?P = stringify" by (simp add: example_platform_def)
  have put: "app_put ?P ?req ?s =
      (\<lparr>status = 200, ETag = Some (generateETag ?P (?text n)),
        content = Json (JObj [(''message'', JStr ''Plan replaced''),
                              (''data'', org_plan (replicate n CHR ''a''))])\<rparr>,
       ?s\<lparr>entries := (entries ?s)(''k1'' \<mapsto> ?text n)\<rparr>)"
    unfolding app_put_eq[OF authenticated_alice_any_digest c]
    by (simp add: alice_fields validatePlan_org_plan stringify_org_plan_nonempty codec)
  show "\<exists>m n. validatePlan (org_plan (replicate n CHR ''a'')) \<and>
      stringify (org_plan (replicate n CHR ''a'')) \<noteq> stringify (org_plan (replicate m CHR ''a'')) \<and>
      status (fst (app_put ?P
        (alice ''k1'' (Some (generateETag ?P (stringify (org_plan (replicate m CHR ''a'')))))
           None (org_plan (replicate n CHR ''a'')))
        \<lparr>entries = [''k1'' \<mapsto> stringify (org_plan (replicate m CHR ''a''))],
         connected = True\<rparr>)) = 200 \<and>
      ETag (fst (app_put ?P
        (alice ''k1'' (Some (generateETag ?P (stringify (org_plan (replicate m CHR ''a'')))))
           None (org_plan (replicate n CHR ''a'')))
        \<lparr>entries = [''k1'' \<mapsto> stringify (org_plan (replicate m CHR ''a''))],
         connected = True\<rparr>)) =
      Some (generateETag ?P (stringify (org_plan (replicate m CHR ''a''))))"
    apply (rule exI[of _ m], rule exI[of _ n])
    using ne tags by (simp add: put validatePlan_org_plan)
qed

text \<open>
  Claim C2 says that a DELETE whose \<open>If-Match\<close> tag differs from the tag of the stored
  record is answered 412 and deletes nothing. \<open>delete_handler\<close> reads
  \<open>If-None-Match\<close> where \<open>put_handler\<close> and \<open>patch_handler\<close> read \<open>If-Match\<close>: a
  DELETE with a stale \<open>If-Match\<close> and no \<open>If-None-Match\<close> is answered 204 and
  removes the record.
\<close>

theorem delete_ignores_if_match:
  "if_match (alice ''k1'' (Some ''stale-tag'') None JNull) = Some ''stale-tag'' \<and>
   ''stale-tag'' \<noteq> generateETag example_platform (stringify plan1) \<and>
   entries store1 ''k1'' = Some (stringify plan1) \<and>
   status (fst (app_delete example_platform (alice ''k1'' (Some ''stale-tag'') None JNull) store1))
     = 204 \<and>
   entries (snd (app_delete example_platform (alice ''k1'' (Some ''stale-tag'') None JNull) store1))
     ''k1'' = None"
proof -
  let ?req = "alice ''k1'' (Some ''stale-tag'') None JNull"
  have "length ''stale-tag'' \<noteq> length (generateETag example_platform (stringify plan1))"
    by (simp add: length_generateETag)
  then have ne: "''stale-tag'' \<noteq> generateETag example_platform (stringify plan1)" by metis
  have "app_delete example_platform ?req store1 =
      (res_end 204, store1\<lparr>entries := (entries store1)(''k1'' := None)\<rparr>)"
    by (simp add: app_delete_eq[OF authenticated_alice connected_store1] alice_fields
        entries_store1 stringify_plan1_nonempty)
  then show ?thesis using ne by (simp add: express_simps alice_fields entries_store1)
qed

text \<open>
  Claim C3. A PATCH on an existing record with the matching \<open>If-Match\<close> tag whose merged
  document fails validation is answered 400, and the store after it is the store before it.
\<close>

theorem patch_invalid_leaves_store:
  assumes "authenticated P req" and "connected s"
    and "entries s (objectId req) = Some plan" and "plan \<noteq> []"
    and "if_match req = Some (generateETag P plan)"
    and "JSON_parse P plan = Some planData"
    and "\<not> validatePlan (spread planData (body req))"
  shows "status (fst (app_patch P req s)) = 400 \<and> snd (app_patch P req s) = s"
  using assms(3-) by (simp add: app_patch_eq[OF assms(1,2)] express_simps)

text \<open>
  A PATCH that would turn \<open>planType\<close> into a number.
\<close>

theorem patch_invalid_leaves_store_witness:
  "authenticated example_platform (alice ''k1'' (Some tag1) None (JObj [(''planType'', JNum 7)])) \<and>
   connected store1 \<and>
   entries store1 (objectId (alice ''k1'' (Some tag1) None (JObj [(''planType'', JNum 7)])))
     = Some (stringify plan1) \<and>
   stringify plan1 \<noteq> [] \<and>
   if_match (alice ''k1'' (Some tag1) None (JObj [(''planType'', JNum 7)]))
     = Some (generateETag example_platform (stringify plan1)) \<and>
   JSON_parse example_platform (stringify plan1) = Some plan1 \<and>
   \<not> validatePlan (spread plan1 (body (alice ''k1'' (Some tag1) None (JObj [(''planType'', JNum 7)])))) \<and>
   status (fst (app_patch example_platform
     (alice ''k1'' (Some tag1) None (JObj [(''planType'', JNum 7)])) store1)) = 400 \<and>
   snd (app_patch example_platform
     (alice ''k1'' (Some tag1) None (JObj [(''planType'', JNum 7)])) store1) = store1"
proof -
  let ?req = "alice ''k1'' (Some tag1) None (JObj [(''planType'', JNum 7)])"
  have h3: "entries store1 (objectId ?req) = Some (stringify plan1)"
    by (simp add: alice_def entries_store1)
  have h5: "if_match ?req = Some (generateETag example_platform (stringify plan1))"
    by (simp add: alice_def tag1_def)
  have h6: "JSON_parse example_platform (stringify plan1) = Some plan1"
    by (simp add: example_codec parse_plan1)
  have h7: "\<not> validatePlan (spread plan1 (body ?req))"
    using spread_planType_invalid by (simp add: alice_def)
  from patch_invalid_leaves_store[OF authenticated_alice connected_store1 h3
      stringify_plan1_nonempty h5 h6 h7]
  show ?thesis
    using authenticated_alice connected_store1 h3 stringify_plan1_nonempty h5 h6 h7 by blast
qed

text \<open>
  Claim C4, amended. An authenticated POST of a valid document on a connected store, with
  \<open>k\<close> the key derived from the document: with no record under \<open>k\<close> the serialised
  document is stored there and the answer is 201 with the tag of that content; with a record
  that parses, the answer is 409 with the parsed record in the body, its \<open>ETag\<close> header is
  the weak tag that express computes of that body and not the tag of the record, and the
  store is unchanged. (A record that does not parse gives 500 and an unchanged store.)
\<close>

theorem post_create_or_conflict:
  assumes "authenticated P req" and "connected s" and "validatePlan (body req)"
    and "plan_objectId (body req) = Some k"
  shows
    "case truthy (entries s k) of
       None \<Rightarrow>
         app_post P req s =
           (Some \<lparr>status = 201, ETag = Some (generateETag P (JSON_stringify P (body req))),
                  content = Json (JObj [(''message'', JStr ''Plan created''),
                                        (''data'', body req)])\<rparr>,
            s\<lparr>entries := (entries s)(k \<mapsto> JSON_stringify P (body req))\<rparr>)
     | Some plan \<Rightarrow>
         (case JSON_parse P plan of
            Some existing \<Rightarrow>
              app_post P req s =
                (Some \<lparr>status = 409,
                       ETag = Some (wetag P (JSON_stringify P
                         (JObj [(''message'', JStr ''Conflict: Plan already exists''),
                                (''data'', existing)]))),
                       content = Json (JObj [(''message'', JStr ''Conflict: Plan already exists''),
                                             (''data'', existing)])\<rparr>, s) \<and>
              ETag (the (fst (app_post P req s))) \<noteq> Some (generateETag P plan)
          | None \<Rightarrow>
              status (the (fst (app_post P req s))) = 500 \<and> snd (app_post P req s) = s)"
proof (cases "truthy (entries s k)")
  case None
  then show ?thesis
    by (auto simp: app_post_eq[OF assms] truthy_def Let_def split: option.splits if_splits)
next
  case (Some plan)
  then have "entries s k = Some plan" "plan \<noteq> []"
    by (auto simp: truthy_def split: option.splits if_splits)
  with Some show ?thesis
    by (simp add: app_post_eq[OF assms] res_json_plain status_json_message_plain
        wetag_neq_generateETag truthy_def Let_def split: option.splits)
qed

text \<open>The stored plan posted a second time.\<close>

theorem post_create_or_conflict_witness:
  "authenticated example_platform (alice [] None None plan1) \<and> connected store1 \<and>
   validatePlan (body (alice [] None None plan1)) \<and>
   plan_objectId (body (alice [] None None plan1)) = Some ''k1'' \<and>
   app_post example_platform (alice [] None None plan1) store1 =
     (Some \<lparr>status = 409,
            ETag = Some (wetag example_platform (stringify
              (JObj [(''message'', JStr ''Conflict: Plan already exists''), (''data'', plan1)]))),
            content = Json (JObj [(''message'', JStr ''Conflict: Plan already exists''),
                                  (''data'', plan1)])\<rparr>, store1)"
proof -
  have b: "body (alice [] None None plan1) = plan1" by (simp add: alice_fields)
  have v: "validatePlan (body (alice [] None None plan1))"
    by (simp add: b validatePlan_plan1)
  have k: "plan_objectId (body (alice [] None None plan1)) = Some ''k1''"
    by (simp add: b plan_objectId_plan1)
  from post_create_or_conflict[OF authenticated_alice connected_store1 v k]
  show ?thesis
    using authenticated_alice connected_store1 v k
    by (simp add: truthy_store1 example_codec parse_plan1)
qed

text \<open>Against the claim as it was stated: that 409 does not carry the tag of the existing
  record.\<close>

theorem post_conflict_counterexample:
  "validatePlan plan1 \<and> plan_objectId plan1 = Some ''k1'' \<and>
   entries store1 ''k1'' = Some (stringify plan1) \<and>
   status (the (fst (app_post example_platform (alice [] None None plan1) store1))) = 409 \<and>
   ETag (the (fst (app_post example_platform (alice [] None None plan1) store1)))
     \<noteq> Some (generateETag example_platform (stringify plan1))"
proof -
  have b: "body (alice [] None None plan1) = plan1" by (simp add: alice_fields)
  note k = plan_objectId_plan1
  have "app_post example_platform (alice [] None None plan1) store1 =
     (Some (res_json example_platform False (alice [] None None plan1) None 409 (JObj
        [(''message'', JStr ''Conflict: Plan already exists''), (''data'', plan1)])), store1)"
    by (simp add: app_post_eq[OF authenticated_alice connected_store1, of _ _ _ _ "''k1''"]
        b k validatePlan_plan1 entries_store1 example_codec parse_plan1 stringify_plan1_nonempty)
  then show ?thesis
    by (simp add: res_json_plain truthy_def wetag_neq_generateETag validatePlan_plan1 k
        entries_store1)
qed

text \<open>
  Claim C5, amended. An authenticated GET on a connected store never changes it. With no
  record under the key it is answered 404. With a record, it is answered 304 without a body
  when \<open>If-None-Match\<close> equals the tag of the stored bytes, and also when the record parses
  and the request is fresh against that tag by the test of express (\<open>fresh\<close>; by
  \<open>fresh_iff\<close>, \<open>fresh_weak_tag\<close> and \<open>fresh_listed_tag\<close>: without
  \<open>If-Modified-Since\<close> and \<open>Cache-Control: no-cache\<close>, an \<open>If-None-Match\<close> that is
  \<open>*\<close> or lists the tag or its weak form). Otherwise it is
  answered 200 with the parsed stored document as body and that tag in \<open>ETag\<close>. (Stored
  bytes that \<open>JSON.parse\<close> rejects give 500; by \<open>written_by\<close> the server writes none.)
\<close>

theorem get_conditional:
  assumes "authenticated P req" and "connected s"
  shows "snd (app_get P req s) = s \<and>
    (case truthy (entries s (objectId req)) of
       None \<Rightarrow> status (fst (app_get P req s)) = 404
     | Some plan \<Rightarrow>
         if if_none_match req = Some (generateETag P plan) then
           status (fst (app_get P req s)) = 304 \<and> content (fst (app_get P req s)) = NoBody
         else
           (case JSON_parse P plan of
              Some doc \<Rightarrow>
                if fresh req (Some (generateETag P plan)) then
                  status (fst (app_get P req s)) = 304 \<and>
                  content (fst (app_get P req s)) = NoBody
                else
                  status (fst (app_get P req s)) = 200 \<and>
                  content (fst (app_get P req s)) = Json doc \<and>
                  ETag (fst (app_get P req s)) = Some (generateETag P plan)
            | None \<Rightarrow> status (fst (app_get P req s)) = 500))"
proof
  show "snd (app_get P req s) = s" by (rule app_get_unchanged)
next
  show "case truthy (entries s (objectId req)) of
       None \<Rightarrow> status (fst (app_get P req s)) = 404
     | Some plan \<Rightarrow>
         if if_none_match req = Some (generateETag P plan) then
           status (fst (app_get P req s)) = 304 \<and> content (fst (app_get P req s)) = NoBody
         else
           (case JSON_parse P plan of
              Some doc \<Rightarrow>
                if fresh req (Some (generateETag P plan)) then
                  status (fst (app_get P req s)) = 304 \<and>
                  content (fst (app_get P req s)) = NoBody
                else
                  status (fst (app_get P req s)) = 200 \<and>
                  content (fst (app_get P req s)) = Json doc \<and>
                  ETag (fst (app_get P req s)) = Some (generateETag P plan)
            | None \<Rightarrow> status (fst (app_get P req s)) = 500)"
  proof (cases "truthy (entries s (objectId req))")
    case None
    then show ?thesis
      by (auto simp: app_get_eq[OF assms] truthy_def status_json_message_error
          split: option.splits if_splits)
  next
    case (Some plan)
    then have stored: "entries s (objectId req) = Some plan" "plan \<noteq> []"
      by (auto simp: truthy_def split: option.splits if_splits)
    show ?thesis
    proof (cases "if_none_match req = Some (generateETag P plan)")
      case True
      with Some stored show ?thesis
        by (simp add: app_get_eq[OF assms] res_end_def)
    next
      case False
      with Some stored show ?thesis
        by (simp add: app_get_eq[OF assms] res_json_def truthy_generateETag Let_def
            split: option.splits)
    qed
  qed
qed

text \<open>A GET without conditional headers.\<close>

theorem get_conditional_witness:
  "authenticated example_platform (alice ''k1'' None None (JObj [])) \<and> connected store1 \<and>
   status (fst (app_get example_platform (alice ''k1'' None None (JObj [])) store1)) = 200 \<and>
   content (fst (app_get example_platform (alice ''k1'' None None (JObj [])) store1))
     = Json plan1 \<and>
   ETag (fst (app_get example_platform (alice ''k1'' None None (JObj [])) store1)) = Some tag1"
proof -
  have nf: "\<not> fresh (alice ''k1'' None None (JObj [])) (Some tag1)"
    by (rule fresh_without_if_none_match) (simp add: alice_fields)
  from get_conditional[OF authenticated_alice connected_store1, of "''k1''" None None "JObj []"]
  show ?thesis
    using authenticated_alice connected_store1 nf
    by (simp add: alice_fields truthy_store1 tag1_def[symmetric] example_codec parse_plan1)
qed

text \<open>Against the claim as it was stated: a GET whose \<open>If-None-Match\<close> is \<open>*\<close>, which is not
  the tag of the stored plan, is answered 304 and not 200.\<close>

theorem get_conditional_counterexample:
  "entries store1 (objectId (alice ''k1'' None (Some ''*'') (JObj []))) = Some (stringify plan1) \<and>
   if_none_match (alice ''k1'' None (Some ''*'') (JObj []))
     \<noteq> Some (generateETag example_platform (stringify plan1)) \<and>
   status (fst (app_get example_platform (alice ''k1'' None (Some ''*'') (JObj [])) store1)) = 304 \<and>
   content (fst (app_get example_platform (alice ''k1'' None (Some ''*'') (JObj [])) store1))
     = NoBody"
proof -
  let ?req = "alice ''k1'' None (Some ''*'') (JObj [])"
  have ne: "generateETag example_platform (stringify plan1) \<noteq> ''*''"
    using tag1_neq_star by (simp add: tag1_def)
  have "app_get example_platform ?req store1 =
      (res_json example_platform True ?req
         (Some (generateETag example_platform (stringify plan1))) 200 plan1, store1)"
    using ne
    by (simp add: app_get_eq[OF authenticated_alice connected_store1] alice_fields
        entries_store1 stringify_plan1_nonempty example_codec parse_plan1)
  then show ?thesis
    using ne
    by (simp add: res_json_def truthy_generateETag fresh_star alice_fields entries_store1
        Let_def)
qed

text \<open>
  Claim C6. After a POST answered 201, an authenticated GET without \<open>If-None-Match\<close> on
  the key derived from the posted document is answered 200 with the posted document as
  body and the \<open>ETag\<close> of the 201, provided \<open>JSON.parse\<close> reads back what
  \<open>JSON.stringify\<close> wrote for that document.
\<close>

theorem create_then_read:
  assumes "app_post P post s = (Some r, s')" and "status r = 201"
    and "plan_objectId (body post) = Some (objectId get)"
    and "authenticated P get" and "if_none_match get = None"
    and "round_trips P (body post)"
  shows "app_get P get s' = (\<lparr>status = 200, ETag = ETag r, content = Json (body post)\<rparr>, s')"
proof -
  from assms(1,2) have auth: "authenticated P post"
    by (auto simp: app_post_def authenticated_def dest: rejected_status split: option.splits)
  from assms(1,2) auth have up: "connected s" and v: "validatePlan (body post)"
    by (auto simp: app_post_def authenticated_def post_handler_def redis_get_def redis_set_def
        express_simps Let_def split: option.splits if_splits sum.splits)
  from assms(1,2) have
    r: "ETag r = Some (generateETag P (JSON_stringify P (body post)))"
    and s': "s' = s\<lparr>entries := (entries s)(objectId get \<mapsto> JSON_stringify P (body post))\<rparr>"
    by (auto simp: app_post_eq[OF auth up v assms(3)] express_simps Let_def
        split: option.splits if_splits)
  have up': "connected s'" using up s' by simp
  have e: "entries s' (objectId get) = Some (JSON_stringify P (body post))"
    by (simp add: s')
  have stale: "\<not> fresh get (Some (generateETag P (JSON_stringify P (body post))))"
    using assms(5) by (rule fresh_without_if_none_match)
  show ?thesis
    unfolding app_get_eq[OF assms(4) up'] e
    using assms(5,6) r stale
    by (simp add: round_trips_def res_json_def truthy_generateETag Let_def)
qed

text \<open>The plan posted to the empty store and read back.\<close>

theorem create_then_read_witness:
  "app_post example_platform (alice [] None None plan1) empty_store =
     (Some \<lparr>status = 201, ETag = Some tag1,
            content = Json (JObj [(''message'', JStr ''Plan created''), (''data'', plan1)])\<rparr>,
      store1) \<and>
   plan_objectId (body (alice [] None None plan1))
     = Some (objectId (alice ''k1'' None None (JObj []))) \<and>
   authenticated example_platform (alice ''k1'' None None (JObj [])) \<and>
   if_none_match (alice ''k1'' None None (JObj [])) = None \<and>
   round_trips example_platform (body (alice [] None None plan1)) \<and>
   app_get example_platform (alice ''k1'' None None (JObj [])) store1 =
     (\<lparr>status = 200, ETag = Some tag1, content = Json plan1\<rparr>, store1)"
proof -
  let ?post = "alice [] None None plan1"
  let ?get = "alice ''k1'' None None (JObj [])"
  let ?r = "\<lparr>status = 201, ETag = Some tag1,
            content = Json (JObj [(''message'', JStr ''Plan created''), (''data'', plan1)])\<rparr>"
  have c: "connected empty_store" by (simp add: empty_store_def)
  have s: "empty_store\<lparr>entries := (entries empty_store)(''k1'' \<mapsto> stringify plan1)\<rparr> = store1"
    by (simp add: empty_store_def store1_def)
  have v: "validatePlan (body ?post)" by (simp add: alice_fields validatePlan_plan1)
  have k: "plan_objectId (body ?post) = Some ''k1''"
    by (simp add: alice_fields plan_objectId_plan1)
  have h1: "app_post example_platform ?post empty_store = (Some ?r, store1)"
    unfolding app_post_eq[OF authenticated_alice c v k]
    by (simp add: alice_fields example_codec tag1_def[symmetric] s) (simp add: empty_store_def)
  have h2: "status ?r = 201" by simp
  have h3: "plan_objectId (body ?post) = Some (objectId ?get)"
    by (simp add: alice_fields plan_objectId_plan1)
  have h5: "if_none_match ?get = None" by (simp add: alice_fields)
  have h6: "round_trips example_platform (body ?post)"
    by (simp add: alice_fields round_trips_plan1)
  from create_then_read[OF h1 h2 h3 authenticated_alice h5 h6]
  show ?thesis using h1 h3 h5 h6 authenticated_alice by (simp add: alice_fields)
qed

text \<open>
  Claim C7. What PATCH produces on an existing record with the matching \<open>If-Match\<close> tag is
  the shallow merge of the stored document and the update: the merged document has under
  every name the value that the update has under it, if it has one, and else the value that
  the stored document has, so that a nested object or array of the update replaces the
  stored value as a whole. When the merged document is a valid plan, it is what the 200
  carries and what is stored; when it is not, the answer is 400 and nothing is stored. (The
  property names of a JavaScript value are distinct.)
\<close>

theorem patch_shallow_merge:
  assumes "authenticated P req" and "connected s"
    and "entries s (objectId req) = Some plan" and "plan \<noteq> []"
    and "if_match req = Some (generateETag P plan)"
    and "JSON_parse P plan = Some planData"
    and "distinct (map fst (own_properties planData))"
    and "distinct (map fst (own_properties (body req)))"
  shows
    "(\<forall>k. property (spread planData (body req)) k =
            (case property (body req) k of
               Some v \<Rightarrow> Some v
             | None \<Rightarrow> property planData k)) \<and>
     (if validatePlan (spread planData (body req)) then
        app_patch P req s =
          (\<lparr>status = 200,
            ETag = Some (generateETag P (JSON_stringify P (spread planData (body req)))),
            content = Json (JObj [(''message'', JStr ''Plan updated''),
                                  (''data'', spread planData (body req))])\<rparr>,
           s\<lparr>entries := (entries s)(objectId req \<mapsto>
                           JSON_stringify P (spread planData (body req)))\<rparr>)
      else
        status (fst (app_patch P req s)) = 400 \<and> snd (app_patch P req s) = s)"
proof
  show "\<forall>k. property (spread planData (body req)) k =
            (case property (body req) k of
               Some v \<Rightarrow> Some v
             | None \<Rightarrow> property planData k)"
    using spread_property[OF assms(7,8)] by blast
next
  show "if validatePlan (spread planData (body req)) then
        app_patch P req s =
          (\<lparr>status = 200,
            ETag = Some (generateETag P (JSON_stringify P (spread planData (body req)))),
            content = Json (JObj [(''message'', JStr ''Plan updated''),
                                  (''data'', spread planData (body req))])\<rparr>,
           s\<lparr>entries := (entries s)(objectId req \<mapsto>
                           JSON_stringify P (spread planData (body req)))\<rparr>)
      else
        status (fst (app_patch P req s)) = 400 \<and> snd (app_patch P req s) = s"
    using assms(3-6) by (simp add: app_patch_eq[OF assms(1,2)] status_res_json_plain)
qed

text \<open>New cost shares and a new plan type for the stored plan: the cost shares are replaced
  as a whole, the plan type is overwritten, and the other properties stay.\<close>

theorem patch_shallow_merge_witness:
  "authenticated example_platform
     (alice ''k1'' (Some tag1) None (JObj [(''planCostShares'', JObj
        [(''deductible'', JNum 500), (''_org'', JStr ''example.com''), (''copay'', JNum 5),
         (''objectId'', JStr ''k1''), (''objectType'', JStr ''membercostshare'')]),
       (''planType'', JStr ''outOfNetwork'')])) \<and>
   connected store1 \<and> entries store1 ''k1'' = Some (stringify plan1) \<and>
   stringify plan1 \<noteq> [] \<and>
   JSON_parse example_platform (stringify plan1) = Some plan1 \<and>
   distinct (map fst (own_properties plan1)) \<and>
   status (fst (app_patch example_platform
     (alice ''k1'' (Some tag1) None (JObj [(''planCostShares'', JObj
        [(''deductible'', JNum 500), (''_org'', JStr ''example.com''), (''copay'', JNum 5),
         (''objectId'', JStr ''k1''), (''objectType'', JStr ''membercostshare'')]),
       (''planType'', JStr ''outOfNetwork'')])) store1)) = 200 \<and>
   content (fst (app_patch example_platform
     (alice ''k1'' (Some tag1) None (JObj [(''planCostShares'', JObj
        [(''deductible'', JNum 500), (''_org'', JStr ''example.com''), (''copay'', JNum 5),
         (''objectId'', JStr ''k1''), (''objectType'', JStr ''membercostshare'')]),
       (''planType'', JStr ''outOfNetwork'')])) store1)) =
     Json (JObj [(''message'', JStr ''Plan updated''),
       (''data'', JObj
         [(''planCostShares'', JObj
             [(''deductible'', JNum 500), (''_org'', JStr ''example.com''), (''copay'', JNum 5),
              (''objectId'', JStr ''k1''), (''objectType'', JStr ''membercostshare'')]),
          (''linkedPlanServices'', JArr []),
          (''_org'', JStr ''example.com''), (''objectId'', JStr ''12xvxc345ssdsds-508''),
          (''objectType'', JStr ''plan''), (''planType'', JStr ''outOfNetwork''),
          (''creationDate'', JStr ''12-12-2017'')])])"
proof -
  let ?u = "JObj [(''planCostShares'', JObj
        [(''deductible'', JNum 500), (''_org'', JStr ''example.com''), (''copay'', JNum 5),
         (''objectId'', JStr ''k1''), (''objectType'', JStr ''membercostshare'')]),
       (''planType'', JStr ''outOfNetwork'')] :: int json"
  let ?req = "alice ''k1'' (Some tag1) None ?u"
  have h3: "entries store1 (objectId ?req) = Some (stringify plan1)"
    by (simp add: alice_fields entries_store1)
  have h5: "if_match ?req = Some (generateETag example_platform (stringify plan1))"
    by (simp add: alice_fields tag1_def)
  have h6: "JSON_parse example_platform (stringify plan1) = Some plan1"
    by (simp add: example_codec parse_plan1)
  have d1: "distinct (map fst (own_properties plan1))"
    by (simp add: own_properties_def plan1_def org_plan_def)
  have d2: "distinct (map fst (own_properties (body ?req)))"
    by (simp add: alice_fields own_properties_def)
  have v: "validatePlan (spread plan1 (body ?req))"
    unfolding alice_fields spread_update1
    by (simp add: validatePlan_def planSchema_def costSharesSchema_def)
  from patch_shallow_merge[OF authenticated_alice connected_store1 h3
      stringify_plan1_nonempty h5 h6 d1 d2] v
  have "app_patch example_platform ?req store1 =
          (\<lparr>status = 200,
            ETag = Some (generateETag example_platform
              (JSON_stringify example_platform (spread plan1 (body ?req)))),
            content = Json (JObj [(''message'', JStr ''Plan updated''),
                                  (''data'', spread plan1 (body ?req))])\<rparr>,
           store1\<lparr>entries := (entries store1)(objectId ?req \<mapsto>
                           JSON_stringify example_platform (spread plan1 (body ?req)))\<rparr>)"
    by simp
  then show ?thesis
    using authenticated_alice connected_store1 entries_store1 stringify_plan1_nonempty h6 d1
    by (simp add: alice_fields spread_update1)
qed

text \<open>
  Claim C9. A DELETE on a key with no stored record (never created, or deleted before) is
  never answered 204 and leaves the store as it is, whoever sends it; from an authenticated
  client on a connected store the answer is 404.
\<close>

theorem delete_absent_not_found:
  assumes "entries s (objectId req) = None"
  shows "status (fst (app_delete P req s)) \<noteq> 204 \<and>
         snd (app_delete P req s) = s \<and>
         (authenticated P req \<and> connected s \<longrightarrow> status (fst (app_delete P req s)) = 404)"
proof (intro conjI impI)
  show "status (fst (app_delete P req s)) \<noteq> 204"
  proof
    assume a: "status (fst (app_delete P req s)) = 204"
    then have "authenticated P req \<and> connected s" by (rule app_delete_204)
    then have "app_delete P req s =
        (json_message P False req 404 ''message'' ''Not Found: Plan not found'', s)"
      using assms by (simp add: app_delete_eq)
    with a show False by (simp add: express_simps)
  qed
  show "snd (app_delete P req s) = s" using assms by (rule app_delete_unchanged_absent)
  show "status (fst (app_delete P req s)) = 404" if "authenticated P req \<and> connected s"
    using that assms by (simp add: app_delete_eq express_simps)
qed

text \<open>
  A DELETE on the empty store.
\<close>

theorem delete_absent_not_found_witness:
  "entries empty_store (objectId (alice ''k1'' None None JNull)) = None \<and>
   authenticated example_platform (alice ''k1'' None None JNull) \<and> connected empty_store \<and>
   status (fst (app_delete example_platform (alice ''k1'' None None JNull) empty_store)) = 404"
proof -
  have h: "entries empty_store (objectId (alice ''k1'' None None JNull)) = None"
    by (simp add: empty_store_def)
  have c: "connected empty_store" by (simp add: empty_store_def)
  from delete_absent_not_found[OF h, of example_platform] authenticated_alice c h
  show ?thesis by blast
qed

text \<open>
  Claim C10, amended. Without an \<open>If-Match\<close> header, an authenticated PATCH on an
  existing record is answered 412, and so is a PUT whose body is a valid plan; a PUT whose
  body fails validation is answered 400, because \<open>put_handler\<close> validates before it reads
  the store. In each case the store is unchanged.
\<close>

theorem missing_if_match:
  assumes "authenticated P req" and "connected s"
    and "entries s (objectId req) = Some plan" and "plan \<noteq> []"
    and "if_match req = None"
  shows "status (fst (app_patch P req s)) = 412 \<and> snd (app_patch P req s) = s \<and>
         status (fst (app_put P req s)) = (if validatePlan (body req) then 412 else 400) \<and>
         snd (app_put P req s) = s"
  using assms(3-)
  by (simp add: app_patch_eq[OF assms(1,2)] app_put_eq[OF assms(1,2)] express_simps)

text \<open>
  A PATCH and a PUT of the stored plan without the header.
\<close>

theorem missing_if_match_witness:
  "authenticated example_platform (alice ''k1'' None None plan1) \<and> connected store1 \<and>
   entries store1 (objectId (alice ''k1'' None None plan1)) = Some (stringify plan1) \<and>
   stringify plan1 \<noteq> [] \<and> if_match (alice ''k1'' None None plan1) = None \<and>
   status (fst (app_patch example_platform (alice ''k1'' None None plan1) store1)) = 412 \<and>
   status (fst (app_put example_platform (alice ''k1'' None None plan1) store1)) = 412 \<and>
   snd (app_put example_platform (alice ''k1'' None None plan1) store1) = store1"
proof -
  let ?req = "alice ''k1'' None None plan1"
  have h3: "entries store1 (objectId ?req) = Some (stringify plan1)"
    by (simp add: alice_fields entries_store1)
  have h5: "if_match ?req = None" by (simp add: alice_fields)
  have v: "validatePlan (body ?req)" by (simp add: alice_fields validatePlan_plan1)
  from missing_if_match[OF authenticated_alice connected_store1 h3 stringify_plan1_nonempty h5]
  show ?thesis
    using authenticated_alice connected_store1 h3 stringify_plan1_nonempty h5 v by simp
qed

text \<open>
  Against the claim as it was stated: a PUT with the body \<open>null\<close> and no \<open>If-Match\<close> on
  the stored plan is answered 400.
\<close>

theorem missing_if_match_counterexample:
  "entries store1 (objectId (alice ''k1'' None None JNull)) = Some (stringify plan1) \<and>
   if_match (alice ''k1'' None None JNull) = None \<and>
   status (fst (app_put example_platform (alice ''k1'' None None JNull) store1)) = 400"
proof -
  have "\<not> validatePlan (JNull :: int json)" by (simp add: validatePlan_def planSchema_def)
  then have "app_put example_platform (alice ''k1'' None None JNull) store1 =
      (res_json example_platform False (alice ''k1'' None None JNull) None 400
         (JObj [(''errors'', ajv_errors example_platform JNull)]), store1)"
    by (simp add: app_put_eq[OF authenticated_alice connected_store1] alice_fields)
  then show ?thesis by (simp add: express_simps alice_fields entries_store1)
qed

end
